theory Spec2Isabelle
  imports Main "HOL-Library.AList"
begin

section \<open>Data model\<close>

text \<open>
  The analyzer of \<^verbatim>\<open>src/lib/createTypeGenerator.ts\<close> is embedded function by function.
  Conventions of the embedding:
  \<^item> A JavaScript object used as a dictionary (\<^verbatim>\<open>Record<string, _>\<close>) and a \<^verbatim>\<open>Map\<close> are
    association lists in key order: \<^verbatim>\<open>obj[k] = v\<close> is \<open>AList.update k v\<close> (an existing key keeps
    its place, a new key goes last), \<^verbatim>\<open>obj[k]\<close> is \<open>map_of\<close>, \<^verbatim>\<open>Object.keys\<close> is \<open>map fst\<close>.
    Keys that are array indices (which JavaScript enumerates first) and keys inherited from
    \<^verbatim>\<open>Object.prototype\<close> are outside the model.
  \<^item> Every \<^verbatim>\<open>throw\<close> and every run-time \<^verbatim>\<open>TypeError\<close> (a property read on \<^verbatim>\<open>undefined\<close>, a
    call of a missing function) is a value \<open>Inl e\<close> of the result.
  \<^item> Every function that receives the analysis context returns, next to its result, the
    contents of that context object after the call, so that a write through the reference
    is visible to the caller as it is in JavaScript.
\<close>

datatype error =
    TypeError
  | Unsupported string
  | UnknownColumn
  | UnknownTable string
  | MissingAlias
  | External string

record Column =
  col_nullable :: bool
  col_type :: string

record Table =
  tbl_columns :: "(string \<times> Column) list"
  tbl_nullable :: bool

type_synonym Tables = "(string \<times> Table) list"

type_synonym TablesBySchema = "(string \<times> Tables) list"

text \<open>
  \<^verbatim>\<open>Context.tables\<close> can hold a key whose value is \<^verbatim>\<open>undefined\<close> (the statement analyzers for
  DELETE, INSERT and UPDATE store the catalog lookup unchecked), hence \<open>Table option\<close>.
  \<^verbatim>\<open>formatFunc\<close> and \<^verbatim>\<open>mapType\<close> are functions; a context copied by \<^verbatim>\<open>clone\<close> has lost them.
\<close>

record Context =
  tables :: "(string \<times> Table option) list"
  defaultSchema :: string
  fallbackType :: string
  formatFunc :: "(string \<Rightarrow> string \<Rightarrow> string) option"
  mapType :: "(string \<Rightarrow> string) option"
  tablesBySchema :: TablesBySchema

datatype ParsedExpression = ParsedExpression
  (constantValue: "string option")
  (name: "string option")
  (nullable: bool)
  (set': "ParsedExpression list option")
  (type: string)
  (types: "ParsedExpression list option")

record ParsedTable =
  pt_alias :: string
  pt_columns :: "(string \<times> Column) list"
  pt_nullable :: bool

text \<open>The object literal \<^verbatim>\<open>{ nullable, type }\<close>.\<close>

definition plain :: "bool \<Rightarrow> string \<Rightarrow> ParsedExpression" where
  "plain n t = ParsedExpression None None n None t None"

text \<open>The spreads \<^verbatim>\<open>{ ...e, nullable: true }\<close>, \<^verbatim>\<open>{ ...e, name: alias }\<close> and \<^verbatim>\<open>{ ...column, name }\<close>.\<close>

definition withNullable :: "ParsedExpression \<Rightarrow> bool \<Rightarrow> ParsedExpression" where
  "withNullable e n = ParsedExpression (constantValue e) (name e) n (set' e) (type e) (types e)"

definition withName :: "ParsedExpression \<Rightarrow> string \<Rightarrow> ParsedExpression" where
  "withName e a = ParsedExpression (constantValue e) (Some a) (nullable e) (set' e) (type e) (types e)"

definition columnWithName :: "Column \<Rightarrow> string \<Rightarrow> ParsedExpression" where
  "columnWithName column a = ParsedExpression None (Some a) (col_nullable column) None (col_type column) None"

subsection \<open>The parse tree (\<^verbatim>\<open>pgsql-parser.d.ts\<close>)\<close>

text \<open>
  A node is an object with one key naming its kind; \<^verbatim>\<open>getFirstKey\<close> reads that key and the
  analyzers switch on it. The kinds are constructors here, and a node of a kind the
  declarations do not list (the \<^verbatim>\<open>default\<close> branch of each switch) is the constructor
  \<open>Other\<dots>\<close> carrying the kind's name.
\<close>

datatype Val = Integer int | Float string | Null | String string | OtherVal string

datatype Field = A_Star | FString string

datatype A_Expr_Kind =
    AEXPR_OP | AEXPR_OP_ANY | AEXPR_OP_ALL | AEXPR_IN | AEXPR_DISTINCT | AEXPR_NOT_DISTINCT
  | AEXPR_NULLIF | AEXPR_LIKE | AEXPR_ILIKE | AEXPR_SIMILAR | AEXPR_BETWEEN | AEXPR_NOT_BETWEEN
  | AEXPR_BETWEEN_SYM | AEXPR_NOT_BETWEEN_SYM | AEXPR_OTHER string

datatype SQLValueFunctionOp =
    SVFOP_CURRENT_DATE | SVFOP_CURRENT_TIME | SVFOP_CURRENT_TIME_N | SVFOP_CURRENT_TIMESTAMP
  | SVFOP_CURRENT_TIMESTAMP_N | SVFOP_LOCALTIME | SVFOP_LOCALTIME_N | SVFOP_LOCALTIMESTAMP
  | SVFOP_LOCALTIMESTAMP_N | SVFOP_CURRENT_ROLE | SVFOP_CURRENT_USER | SVFOP_USER
  | SVFOP_SESSION_USER | SVFOP_CURRENT_CATALOG | SVFOP_CURRENT_SCHEMA

datatype SubLinkType =
    EXISTS_SUBLINK | ALL_SUBLINK | ANY_SUBLINK | ROWCOMPARE_SUBLINK | EXPR_SUBLINK
  | MULTIEXPR_SUBLINK | ARRAY_SUBLINK | OTHER_SUBLINK string

datatype JoinType = JOIN_INNER | JOIN_LEFT | JOIN_FULL | JOIN_RIGHT

record Alias =
  aliasname :: string
  colnames :: "string list option"

record RangeVar =
  rv_alias :: "Alias option"
  relname :: string
  schemaname :: "string option"

record TypeName =
  arrayBounds :: "int list option"
  names :: "string list option"

datatype Expression =
    A_ArrayExpr "Expression list"
  | A_Const Val
  | A_Expr A_Expr_Kind "Expression option" "string list" "Expression option"
  | A_Indirection Expression "A_Indices list"
  | BoolExpr "Expression list"
  | BoolTest Expression
  | CaseExpr "CaseWhen list" "Expression option"
  | CoalesceExpr "Expression list"
  | ColumnRef "Field list"
  | FuncCall "string list" "Expression list"
  | List "Expression list"
  | MinMaxExpr "Expression list"
  | NullTest Expression
  | ParamRef
  | SQLValueFunction SQLValueFunctionOp
  | SubLink SubLinkType Stmt
  | TypeCast Expression TypeName
  | OtherExpression string
and A_Indices = A_Indices bool "Expression option" "Expression option"
and CaseWhen = CaseWhen Expression Expression
and ResTarget = ResTarget "string option" Expression
and FromItem =
    JoinExpr JoinType FromItem FromItem
  | RangeSubselect Alias SelectStmt
  | RangeVar RangeVar
  | OtherFromItem string
and CommonTableExpr = CommonTableExpr string "string list" Stmt
and SelectStmt =
    Select "ResTarget list option" "FromItem list option" "CommonTableExpr list option"
  | SetOperation SelectStmt SelectStmt
  | Values "Expression list list"
and Stmt =
    DeleteStmt RangeVar "ResTarget list option"
  | InsertStmt RangeVar "ResTarget list option"
  | SelectStmt SelectStmt
  | UpdateStmt RangeVar "ResTarget list option"
  | OtherStmt string

datatype RawStmt = RawStmt Stmt

section \<open>Utilities\<close>

definition dq :: char where
  "dq = CHR 0x22"

text \<open>The template \<^verbatim>\<open>`"${s}"`\<close>.\<close>

definition quoted :: "string \<Rightarrow> string" where
  "quoted s = dq # s @ [dq]"

text \<open>\<^verbatim>\<open>Array.prototype.join\<close>.\<close>

fun join :: "string \<Rightarrow> string list \<Rightarrow> string" where
  "join sep [] = []"
| "join sep [x] = x"
| "join sep (x # y # ys) = x @ sep @ join sep (y # ys)"

text \<open>\<^verbatim>\<open>unique\<close>: \<^verbatim>\<open>Array.from(new Set(array).values())\<close> keeps the first occurrence of each element.\<close>

definition unique :: "'a list \<Rightarrow> 'a list" where
  "unique array = fold (\<lambda>x acc. if x \<in> set acc then acc else acc @ [x]) array []"

text \<open>
  \<^verbatim>\<open>Number.prototype.toString(10)\<close> on the integer of an \<^verbatim>\<open>Integer\<close> node (a 32-bit value, well
  inside the range that JavaScript prints in positional notation).
\<close>

definition digit :: "nat \<Rightarrow> char" where
  "digit n = ''0123456789'' ! (n mod 10)"

function digits :: "nat \<Rightarrow> string" where
  "digits n = (if n < 10 then [digit n] else digits (n div 10) @ [digit n])"
  by pat_completeness auto
termination
  by (relation "measure id") auto

declare digits.simps [simp del]

definition toString10 :: "int \<Rightarrow> string" where
  "toString10 i = (if i < 0 then CHR ''-'' # digits (nat (- i)) else digits (nat i))"

text \<open>\<^verbatim>\<open>x ?? []\<close> on an optional list.\<close>

definition orEmpty :: "'a list option \<Rightarrow> 'a list" where
  "orEmpty x = (case x of None \<Rightarrow> [] | Some l \<Rightarrow> l)"

text \<open>\<^verbatim>\<open>xs[i]\<close>, \<^verbatim>\<open>undefined\<close> out of range.\<close>

definition at :: "'a list \<Rightarrow> nat \<Rightarrow> 'a option" where
  "at xs i = (if i < length xs then Some (xs ! i) else None)"

text \<open>\<^verbatim>\<open>isNumber\<close> and \<^verbatim>\<open>isText\<close> (\<^verbatim>\<open>src/lib/utilities\<close>).\<close>

definition isNumber :: "string \<Rightarrow> bool" where
  "isNumber typeName \<longleftrightarrow> typeName \<in> set
     [''bigserial'', ''decimal'', ''float2'', ''float4'', ''float8'', ''int2'', ''int4'', ''int8'',
      ''serial'', ''serial2'', ''serial4'', ''serial8'', ''smallserial'']"

definition isText :: "string \<Rightarrow> bool" where
  "isText typeName \<longleftrightarrow> typeName \<in> set [''bpchar'', ''citext'', ''text'', ''varchar'']"

text \<open>
  Modelled from the spec: the utilities \<^verbatim>\<open>isArray\<close>, \<^verbatim>\<open>getElementType\<close>, \<^verbatim>\<open>isJson\<close>, \<^verbatim>\<open>isTime\<close>,
  \<^verbatim>\<open>isTimestamp\<close> and \<^verbatim>\<open>isBit\<close> are imported by the analyzer but their files are not part of
  the sources at hand. The specification says: arrays are encoded by a trailing \<^verbatim>\<open>[]\<close> and
  the element type is recovered by stripping it; the json family is \<^verbatim>\<open>json\<close>, \<^verbatim>\<open>jsonb\<close>; the
  time family is \<^verbatim>\<open>time\<close>, \<^verbatim>\<open>timetz\<close>; the timestamp family is \<^verbatim>\<open>timestamp\<close>, \<^verbatim>\<open>timestamptz\<close>;
  the bit family is \<^verbatim>\<open>bit\<close>, \<^verbatim>\<open>varbit\<close>.
\<close>

definition isArray :: "string \<Rightarrow> bool" where
  "isArray typeName \<longleftrightarrow> 2 \<le> length typeName \<and> drop (length typeName - 2) typeName = ''[]''"

definition getElementType :: "string \<Rightarrow> string" where
  "getElementType typeName =
     (if isArray typeName then take (length typeName - 2) typeName else typeName)"

definition isJson :: "string \<Rightarrow> bool" where
  "isJson typeName \<longleftrightarrow> typeName \<in> set [''json'', ''jsonb'']"

definition isTime :: "string \<Rightarrow> bool" where
  "isTime typeName \<longleftrightarrow> typeName \<in> set [''time'', ''timetz'']"

definition isTimestamp :: "string \<Rightarrow> bool" where
  "isTimestamp typeName \<longleftrightarrow> typeName \<in> set [''timestamp'', ''timestamptz'']"

definition isBit :: "string \<Rightarrow> bool" where
  "isBit typeName \<longleftrightarrow> typeName \<in> set [''bit'', ''varbit'']"

text \<open>
  \<^verbatim>\<open>clone\<close> is \<^verbatim>\<open>JSON.parse(JSON.stringify(object))\<close>: a deep copy that drops every property
  whose value is a function or \<^verbatim>\<open>undefined\<close>.
\<close>

definition clone :: "Context \<Rightarrow> Context" where
  "clone context = context
     \<lparr> tables := filter (\<lambda>(k, v). v \<noteq> None) (tables context),
       formatFunc := None,
       mapType := None \<rparr>"

section \<open>Analyses that may fail and may write to the context\<close>

type_synonym 'a analysis = "Context \<Rightarrow> (error + 'a) \<times> Context"

definition returnA :: "'a \<Rightarrow> 'a analysis" where
  "returnA x = (\<lambda>c. (Inr x, c))"

definition throwA :: "error \<Rightarrow> 'a analysis" where
  "throwA e = (\<lambda>c. (Inl e, c))"

definition liftA :: "error + 'a \<Rightarrow> 'a analysis" where
  "liftA r = (\<lambda>c. (r, c))"

definition bindA :: "'a analysis \<Rightarrow> ('a \<Rightarrow> 'b analysis) \<Rightarrow> 'b analysis" where
  "bindA m f = (\<lambda>c. case m c of (Inl e, c') \<Rightarrow> (Inl e, c') | (Inr x, c') \<Rightarrow> f x c')"

text \<open>
  \<open>execOn m other\<close> runs \<open>m\<close> on another context object than the caller's own (a clone, or a
  context built from one) and hands back its result together with that object's final
  contents; the caller's own context is not touched by the call.
\<close>

definition execOn :: "'a analysis \<Rightarrow> Context \<Rightarrow> ('a \<times> Context) analysis" where
  "execOn m other = (\<lambda>c. case m other of (Inl e, other') \<Rightarrow> (Inl e, c) | (Inr x, other') \<Rightarrow> (Inr (x, other'), c))"

text \<open>\<^verbatim>\<open>Array.prototype.map\<close> with a callback that may throw.\<close>

fun mapA :: "('a \<Rightarrow> 'b analysis) \<Rightarrow> 'a list \<Rightarrow> 'b list analysis" where
  "mapA f [] c = returnA [] c"
| "mapA f (x # xs) c = bindA (f x) (\<lambda>y. bindA (mapA f xs) (\<lambda>ys. returnA (y # ys))) c"

text \<open>\<^verbatim>\<open>Array.prototype.some\<close>: stops at the first element for which the callback is true.\<close>

fun someA :: "('a \<Rightarrow> bool analysis) \<Rightarrow> 'a list \<Rightarrow> bool analysis" where
  "someA f [] c = returnA False c"
| "someA f (x # xs) c = bindA (f x) (\<lambda>b. if b then returnA True else someA f xs) c"

text \<open>\<^verbatim>\<open>Array.prototype.reduce\<close>, and a \<^verbatim>\<open>for \<dots> of\<close> loop that updates an accumulator.\<close>

fun foldA :: "('b \<Rightarrow> 'a \<Rightarrow> 'b analysis) \<Rightarrow> 'a list \<Rightarrow> 'b \<Rightarrow> 'b analysis" where
  "foldA f [] acc c = returnA acc c"
| "foldA f (x # xs) acc c = bindA (f acc x) (\<lambda>acc'. foldA f xs acc') c"

text \<open>
  The loop \<^verbatim>\<open>for (const x of xs) { const y = f(x); ys.push(y); if (stop(y)) break; }\<close>.
\<close>

fun pushUntilA :: "('a \<Rightarrow> 'b analysis) \<Rightarrow> ('b \<Rightarrow> bool) \<Rightarrow> 'a list \<Rightarrow> 'b list analysis" where
  "pushUntilA f stop [] c = returnA [] c"
| "pushUntilA f stop (x # xs) c =
     bindA (f x) (\<lambda>y. if stop y then returnA [y] else bindA (pushUntilA f stop xs) (\<lambda>ys. returnA (y # ys))) c"

text \<open>\<^verbatim>\<open>f(xs[i])\<close> where \<^verbatim>\<open>f\<close> reads a property of its argument: a \<^verbatim>\<open>TypeError\<close> out of range.\<close>

definition argA :: "('a \<Rightarrow> 'b analysis) \<Rightarrow> 'a list \<Rightarrow> nat \<Rightarrow> 'b analysis" where
  "argA f xs i = (case at xs i of None \<Rightarrow> throwA TypeError | Some x \<Rightarrow> f x)"

text \<open>\<^verbatim>\<open>x && f(x)\<close> and \<^verbatim>\<open>f(x)\<close> on an operand that may be missing.\<close>

definition optA :: "('a \<Rightarrow> 'b analysis) \<Rightarrow> 'a option \<Rightarrow> 'b option analysis" where
  "optA f x = (case x of None \<Rightarrow> returnA None | Some v \<Rightarrow> bindA (f v) (\<lambda>y. returnA (Some y)))"

definition reqA :: "('a \<Rightarrow> 'b analysis) \<Rightarrow> 'a option \<Rightarrow> 'b analysis" where
  "reqA f x = (case x of None \<Rightarrow> throwA TypeError | Some v \<Rightarrow> f v)"

text \<open>The same for computations that only may fail.\<close>

fun mapE :: "('a \<Rightarrow> error + 'b) \<Rightarrow> 'a list \<Rightarrow> error + 'b list" where
  "mapE f [] = Inr []"
| "mapE f (x # xs) =
     (case f x of Inl e \<Rightarrow> Inl e
      | Inr y \<Rightarrow> (case mapE f xs of Inl e \<Rightarrow> Inl e | Inr ys \<Rightarrow> Inr (y # ys)))"

fun foldE :: "('b \<Rightarrow> 'a \<Rightarrow> error + 'b) \<Rightarrow> 'a list \<Rightarrow> 'b \<Rightarrow> error + 'b" where
  "foldE f [] acc = Inr acc"
| "foldE f (x # xs) acc = (case f acc x of Inl e \<Rightarrow> Inl e | Inr acc' \<Rightarrow> foldE f xs acc')"

lemma bindA_cong [fundef_cong]:
  "m c = m' c' \<Longrightarrow> (\<And>x c''. m' c' = (Inr x, c'') \<Longrightarrow> f x c'' = f' x c'')
    \<Longrightarrow> bindA m f c = bindA m' f' c'"
  by (auto simp: bindA_def split: prod.splits sum.splits)

lemma execOn_cong [fundef_cong]:
  "other = other' \<Longrightarrow> c = c' \<Longrightarrow> m other' = m' other' \<Longrightarrow> execOn m other c = execOn m' other' c'"
  by (simp add: execOn_def)

lemma mapA_cong [fundef_cong]:
  "xs = ys \<Longrightarrow> c = c' \<Longrightarrow> (\<And>x s. x \<in> set ys \<Longrightarrow> f x s = g x s) \<Longrightarrow> mapA f xs c = mapA g ys c'"
proof (induction ys arbitrary: xs c c')
  case Nil
  then show ?case by simp
next
  case (Cons a ys)
  have "mapA f ys = mapA g ys"
    using Cons by (intro ext) auto
  then show ?case
    using Cons by (auto simp: bindA_def split: prod.splits sum.splits)
qed

lemma someA_cong [fundef_cong]:
  "xs = ys \<Longrightarrow> c = c' \<Longrightarrow> (\<And>x s. x \<in> set ys \<Longrightarrow> f x s = g x s) \<Longrightarrow> someA f xs c = someA g ys c'"
proof (induction ys arbitrary: xs c c')
  case Nil
  then show ?case by simp
next
  case (Cons a ys)
  have "someA f ys = someA g ys"
    using Cons by (intro ext) auto
  then show ?case
    using Cons by (auto simp: bindA_def split: prod.splits sum.splits)
qed

lemma foldA_cong [fundef_cong]:
  "xs = ys \<Longrightarrow> acc = acc' \<Longrightarrow> c = c' \<Longrightarrow> (\<And>a x s. x \<in> set ys \<Longrightarrow> f a x s = g a x s)
    \<Longrightarrow> foldA f xs acc c = foldA g ys acc' c'"
proof (induction ys arbitrary: xs acc acc' c c')
  case Nil
  then show ?case by simp
next
  case (Cons a ys)
  have "foldA f ys = foldA g ys"
    using Cons by (intro ext) auto
  then show ?case
    using Cons by (auto simp: bindA_def split: prod.splits sum.splits)
qed

lemma pushUntilA_cong [fundef_cong]:
  "xs = ys \<Longrightarrow> c = c' \<Longrightarrow> stop = stop' \<Longrightarrow> (\<And>x s. x \<in> set ys \<Longrightarrow> f x s = g x s)
    \<Longrightarrow> pushUntilA f stop xs c = pushUntilA g stop' ys c'"
proof (induction ys arbitrary: xs c c')
  case Nil
  then show ?case by simp
next
  case (Cons a ys)
  have "pushUntilA f stop ys = pushUntilA g stop ys"
    using Cons by (intro ext) auto
  then show ?case
    using Cons by (auto simp: bindA_def split: prod.splits sum.splits)
qed

lemma at_SomeD: "at xs i = Some x \<Longrightarrow> x \<in> set xs"
  by (auto simp: at_def split: if_splits)

lemma argA_cong [fundef_cong]:
  "xs = ys \<Longrightarrow> i = j \<Longrightarrow> c = c' \<Longrightarrow> (\<And>x s. x \<in> set ys \<Longrightarrow> f x s = g x s) \<Longrightarrow> argA f xs i c = argA g ys j c'"
  by (auto simp: argA_def dest: at_SomeD split: option.splits)

lemma optA_cong [fundef_cong]:
  "x = y \<Longrightarrow> c = c' \<Longrightarrow> (\<And>v s. y = Some v \<Longrightarrow> f v s = g v s) \<Longrightarrow> optA f x c = optA g y c'"
  by (auto simp: optA_def bindA_def split: option.splits)

lemma reqA_cong [fundef_cong]:
  "x = y \<Longrightarrow> c = c' \<Longrightarrow> (\<And>v s. y = Some v \<Longrightarrow> f v s = g v s) \<Longrightarrow> reqA f x c = reqA g y c'"
  by (auto simp: reqA_def split: option.splits)

lemma size_orEmpty [termination_simp]:
  "size_list f (orEmpty x) \<le> size_option (size_list f) x"
  by (cases x) (auto simp: orEmpty_def)

section \<open>Expression analyzer: the parts without recursion\<close>

definition parseAConst :: "Val \<Rightarrow> error + ParsedExpression" where
  "parseAConst val = (case val of
      Integer ival \<Rightarrow> Inr (ParsedExpression (Some (toString10 ival)) None False None ''int4'' None)
    | Float str \<Rightarrow> Inr (ParsedExpression (Some str) None False None ''float4'' None)
    | Null \<Rightarrow> Inr (plain True ''null'')
    | String str \<Rightarrow> Inr (ParsedExpression (Some (quoted str)) None False None ''text'' None)
    | OtherVal nodeType \<Rightarrow> Inl (Unsupported nodeType))"

text \<open>
  The operator table of \<^verbatim>\<open>parseAExpr\<close> (kind \<^verbatim>\<open>AEXPR_OP\<close>), applied to the analyzed operands.
  An operand is \<open>None\<close> when the node has none (a prefix operator has no \<^verbatim>\<open>lexpr\<close>); reading
  a property of a missing operand is a \<^verbatim>\<open>TypeError\<close>. \<open>orNullable\<close> is
  \<^verbatim>\<open>lexpr.nullable || rexpr.nullable\<close> and \<open>orNullableOpt\<close> is
  \<^verbatim>\<open>(lexpr ? lexpr.nullable : false) || rexpr.nullable\<close>; both read \<^verbatim>\<open>rexpr\<close> only when the
  left disjunct is false.
\<close>

definition orNullable :: "ParsedExpression option \<Rightarrow> ParsedExpression option \<Rightarrow> error + bool" where
  "orNullable lexpr rexpr = (case lexpr of
      None \<Rightarrow> Inl TypeError
    | Some l \<Rightarrow> if nullable l then Inr True
        else (case rexpr of None \<Rightarrow> Inl TypeError | Some r \<Rightarrow> Inr (nullable r)))"

definition orNullableOpt :: "ParsedExpression option \<Rightarrow> ParsedExpression option \<Rightarrow> error + bool" where
  "orNullableOpt lexpr rexpr =
     (if (case lexpr of None \<Rightarrow> False | Some l \<Rightarrow> nullable l) then Inr True
      else (case rexpr of None \<Rightarrow> Inl TypeError | Some r \<Rightarrow> Inr (nullable r)))"

definition plusType :: "ParsedExpression option \<Rightarrow> ParsedExpression \<Rightarrow> string" where
  "plusType lexpr r = (case lexpr of
      None \<Rightarrow> type r
    | Some l \<Rightarrow>
        if type l = ''date'' then
          (if isNumber (type r) then ''date''
           else if isTime (type r) \<or> type r = ''interval'' then ''timestamp''
           else type r)
        else if type r = ''date'' then
          (if isNumber (type l) then ''date''
           else if isTime (type l) \<or> type l = ''interval'' then ''timestamp''
           else type r)
        else if type l = ''interval'' then
          (if isTimestamp (type r) \<or> isTime (type r) then type r else type r)
        else if type r = ''interval'' then
          (if isTimestamp (type l) \<or> isTime (type l) then type l else type r)
        else type r)"

definition minusType :: "ParsedExpression option \<Rightarrow> ParsedExpression \<Rightarrow> string" where
  "minusType lexpr r = (case lexpr of
      None \<Rightarrow> type r
    | Some l \<Rightarrow>
        if isJson (type l) then type l
        else if type l = ''date'' \<and> type r = ''date'' then ''int4''
        else if type l = ''date'' \<and> isNumber (type r) then ''date''
        else if type l = ''date'' \<and> type r = ''interval'' then ''timestamp''
        else if isTime (type l) \<and> isTime (type r) then ''interval''
        else if isTime (type l) \<and> type r = ''interval'' then type l
        else if isTimestamp (type l) \<and> type r = ''interval'' then type l
        else if isTimestamp (type l) \<and> isTimestamp (type r) then ''interval''
        else type r)"

definition parseAExprOp ::
  "string \<Rightarrow> ParsedExpression option \<Rightarrow> ParsedExpression option \<Rightarrow> error + ParsedExpression" where
  "parseAExprOp name' lexpr rexpr =
    (if name' = ''+'' then
       (case rexpr of None \<Rightarrow> Inl TypeError
        | Some r \<Rightarrow> Inr (plain ((case lexpr of None \<Rightarrow> False | Some l \<Rightarrow> nullable l) \<or> nullable r) (plusType lexpr r)))
     else if name' = ''-'' then
       (case rexpr of None \<Rightarrow> Inl TypeError
        | Some r \<Rightarrow> Inr (plain ((case lexpr of None \<Rightarrow> False | Some l \<Rightarrow> nullable l) \<or> nullable r) (minusType lexpr r)))
     else if name' = ''*'' then
       (case (lexpr, rexpr) of
          (Some l, Some r) \<Rightarrow> Inr (plain (nullable l \<or> nullable r)
             (if type l = ''interval'' \<and> isNumber (type r) then ''interval''
              else if type r = ''interval'' \<and> isNumber (type l) then ''interval''
              else type r))
        | _ \<Rightarrow> Inl TypeError)
     else if name' = ''/'' then
       (case (lexpr, rexpr) of
          (Some l, Some r) \<Rightarrow> Inr (plain (nullable l \<or> nullable r)
             (if type l = ''interval'' \<and> isNumber (type r) then ''interval'' else type r))
        | _ \<Rightarrow> Inl TypeError)
     else if name' \<in> set [''>>'', ''<<''] then
       (case (lexpr, rexpr) of
          (Some l, Some r) \<Rightarrow> Inr (plain (nullable l \<or> nullable r)
             (if isNumber (type r) then type l else ''bool''))
        | _ \<Rightarrow> Inl TypeError)
     else if name' = ''~'' then
       (case rexpr of None \<Rightarrow> Inl TypeError
        | Some r \<Rightarrow> Inr (plain ((case lexpr of None \<Rightarrow> False | Some l \<Rightarrow> nullable l) \<or> nullable r)
             (if isNumber (type r) \<or> isBit (type r) then type r else ''bool'')))
     else if name' = ''||'' then
       (case lexpr of None \<Rightarrow> Inl TypeError
        | Some l \<Rightarrow>
            if isArray (type l) then
              (case orNullable lexpr rexpr of Inl e \<Rightarrow> Inl e | Inr n \<Rightarrow> Inr (plain n (type l)))
            else
              (case rexpr of None \<Rightarrow> Inl TypeError
               | Some r \<Rightarrow> Inr (plain (nullable l \<or> nullable r)
                   (if isArray (type r) then type r else if isText (type l) then type l else type r))))
     else if name' \<in> set [''<'', ''<='', ''>'', ''>='', ''<>'', ''!='', ''='', ''@>'', ''<@'', ''?'', ''?|'',
          ''?&'', ''@?'', ''@@'', ''&&'', ''&<'', ''&>'', ''-|-'', ''~*'', ''!~'', ''!~*''] then
       (case orNullable lexpr rexpr of Inl e \<Rightarrow> Inl e | Inr n \<Rightarrow> Inr (plain n ''bool''))
     else if name' \<in> set [''&'', ''|'', ''#'', ''->'', ''#>'', ''#-''] then
       (case orNullable lexpr rexpr of Inl e \<Rightarrow> Inl e
        | Inr n \<Rightarrow> (case lexpr of None \<Rightarrow> Inl TypeError | Some l \<Rightarrow> Inr (plain n (type l))))
     else if name' \<in> set [''->>'', ''#>>''] then
       (case orNullable lexpr rexpr of Inl e \<Rightarrow> Inl e | Inr n \<Rightarrow> Inr (plain n ''text''))
     else if name' \<in> set [''%'', ''^'', ''|/'', ''||/'', ''@''] then
       (case rexpr of None \<Rightarrow> Inl TypeError
        | Some r \<Rightarrow> Inr (plain ((case lexpr of None \<Rightarrow> False | Some l \<Rightarrow> nullable l) \<or> nullable r) (type r)))
     else Inl (Unsupported name'))"

text \<open>
  \<^verbatim>\<open>parseColumnRef\<close>. An unqualified name is looked up in the visible tables in key order
  and the first table that has the column wins.
\<close>

fun findColumn :: "(string \<times> Table option) list \<Rightarrow> string list \<Rightarrow> string \<Rightarrow> error + Column option" where
  "findColumn tables' [] columnName = Inr None"
| "findColumn tables' (tableName # rest) columnName =
     (case map_of tables' tableName of
        Some (Some table) \<Rightarrow>
          (case map_of (tbl_columns table) columnName of
             Some maybeColumn \<Rightarrow> Inr (Some maybeColumn)
           | None \<Rightarrow> findColumn tables' rest columnName)
      | _ \<Rightarrow> Inl TypeError)"

definition lookupTable :: "(string \<times> Table option) list \<Rightarrow> string \<Rightarrow> Table option" where
  "lookupTable tables' tableName = (case map_of tables' tableName of Some (Some table) \<Rightarrow> Some table | _ \<Rightarrow> None)"

definition parseColumnRef :: "Field list \<Rightarrow> (string \<times> Table option) list \<Rightarrow> error + ParsedExpression" where
  "parseColumnRef fields' tables' =
    (if length fields' > 2 then Inl (Unsupported ''fully qualified column names'')
     else
       (case
          (if length fields' = 2 then
             (case (fields' ! 0, fields' ! 1) of
                (A_Star, _) \<Rightarrow> Inl (Inl TypeError)
              | (FString t, A_Star) \<Rightarrow>
                  Inl (Inr (ParsedExpression None (Some []) 
                     (case lookupTable tables' t of Some table \<Rightarrow> tbl_nullable table | None \<Rightarrow> True)
                     None ''any'' None))
              | (FString t, FString c) \<Rightarrow>
                  Inr (case lookupTable tables' t of Some table \<Rightarrow> map_of (tbl_columns table) c | None \<Rightarrow> None, c))
           else
             (case fields' of
                [] \<Rightarrow> Inl (Inl TypeError)
              | A_Star # _ \<Rightarrow> Inl (Inr (ParsedExpression None (Some []) False None ''any'' None))
              | FString c # _ \<Rightarrow>
                  (case findColumn tables' (map fst tables') c of
                     Inl e \<Rightarrow> Inl (Inl e)
                   | Inr column \<Rightarrow> Inr (column, c))))
        of
          Inl result \<Rightarrow> result
        | Inr (None, c) \<Rightarrow> Inl UnknownColumn
        | Inr (Some column, c) \<Rightarrow> Inr (columnWithName column c)))"

text \<open>
  The \<^verbatim>\<open>switch\<close> on the function name in \<^verbatim>\<open>parseFuncCall\<close>, as a table: how \<^verbatim>\<open>nullable\<close> and
  how \<^verbatim>\<open>type\<close> of the result are computed. The object literal evaluates \<^verbatim>\<open>nullable\<close> first.
  \<open>SomeArg\<close> is \<^verbatim>\<open>args.some((arg) => parseExpression(arg, context).nullable)\<close>, \<open>OfArg i\<close> and
  \<open>TypeOfArg i\<close> are \<^verbatim>\<open>parseExpression(args[i], context)\<close>. \<open>Avg\<close> analyzes \<^verbatim>\<open>args[0]\<close> once.
  The second \<^verbatim>\<open>case "format"\<close> of the source is unreachable: the first group has the label.
\<close>

datatype NullableRule = SomeArg | OfArg nat | Always bool

datatype TypeRule = TypeOfArg nat | Fixed string | ElementArrayOfArg nat

datatype FuncRule = Rule NullableRule TypeRule | Avg

definition funcRule :: "string \<Rightarrow> FuncRule" where
  "funcRule functionName =
    (if functionName \<in> set [''abs'', ''acos'', ''acosd'', ''acosh'', ''asin'', ''asind'', ''asinh'', ''atan'',
        ''atan2'', ''atan2d'', ''atand'', ''atanh'', ''bit_and'', ''bit_or'', ''bit_xor'', ''btrim'', ''cbrt'',
        ''ceil'', ''ceiling'', ''convert'', ''cos'', ''cosd'', ''cosh'', ''cot'', ''cotd'', ''degrees'', ''div'',
        ''exp'', ''factorial'', ''floor'', ''format'', ''gcd'', ''initcap'', ''lcm'', ''left'', ''ln'', ''log'',
        ''log10'', ''lower'', ''lpad'', ''ltrim'', ''max'', ''md5'', ''min'', ''mod'', ''normalize'', ''overlay'',
        ''power'', ''quote_ident'', ''radians'', ''regexp_replace'', ''repeat'', ''replace'', ''reverse'',
        ''right'', ''round'', ''rpad'', ''rtrim'', ''set_bit'', ''set_byte'', ''sha224'', ''sha256'', ''sha384'',
        ''sha512'', ''sign'', ''sin'', ''sind'', ''sinh'', ''split_part'', ''sqrt'', ''string_agg'', ''substr'',
        ''substring'', ''sum'', ''tan'', ''tand'', ''tanh'', ''to_ascii'', ''translate'', ''trim'', ''trim_scale'',
        ''trunc'', ''unistr'', ''upper'']
       then Rule SomeArg (TypeOfArg 0)
     else if functionName \<in> set [''array_append'', ''array_cat'', ''array_remove'', ''array_replace'']
       then Rule (OfArg 0) (TypeOfArg 0)
     else if functionName = ''date_trunc'' then Rule SomeArg (TypeOfArg 1)
     else if functionName = ''array_prepend'' then Rule (OfArg 1) (TypeOfArg 1)
     else if functionName = ''avg'' then Avg
     else if functionName \<in> set [''bool_and'', ''bool_or'', ''every'', ''isfinite'', ''starts_with'']
       then Rule SomeArg (Fixed ''bool'')
     else if functionName \<in> set [''convert_to'', ''decode''] then Rule SomeArg (Fixed ''bytea'')
     else if functionName \<in> set [''make_date'', ''to_date''] then Rule SomeArg (Fixed ''date'')
     else if functionName = ''date_part'' then Rule SomeArg (Fixed ''float8'')
     else if functionName \<in> set [''cume_dist'', ''percent_rank'', ''pi'', ''random'']
       then Rule (Always False) (Fixed ''float8'')
     else if functionName \<in> set [''array_length'', ''array_lower'', ''array_ndims'', ''array_upper'', ''ascii'',
        ''bit_length'', ''cardinality'', ''char_length'', ''character_length'', ''chr'', ''get_bit'',
        ''get_byte'', ''length'', ''min_scale'', ''ntile'', ''octet_length'', ''position'', ''scale'', ''strpos'',
        ''width_bucket'']
       then Rule SomeArg (Fixed ''int4'')
     else if functionName = ''array_position'' then Rule (Always True) (Fixed ''int4'')
     else if functionName \<in> set [''num_nonnulls'', ''num_nulls''] then Rule (Always False) (Fixed ''int4'')
     else if functionName = ''array_positions'' then Rule (OfArg 0) (Fixed ''int4[]'')
     else if functionName = ''bit_count'' then Rule SomeArg (Fixed ''int8'')
     else if functionName \<in> set [''count'', ''currval'', ''dense_rank'', ''lastval'', ''nextval'', ''rank'',
        ''row_number'', ''setval'']
       then Rule (Always False) (Fixed ''int8'')
     else if functionName \<in> set [''age'', ''justify_days'', ''justify_hours'', ''justify_interval'',
        ''make_interval'']
       then Rule SomeArg (Fixed ''interval'')
     else if functionName \<in> set [''extract'', ''to_number''] then Rule SomeArg (Fixed ''numeric'')
     else if functionName \<in> set [''array_dims'', ''array_to_string'', ''concat'', ''concat_ws'',
        ''convert_from'', ''encode'', ''quote_literal'', ''quote_nullable'', ''to_char'', ''to_hex'']
       then Rule SomeArg (Fixed ''text'')
     else if functionName = ''timeofday'' then Rule (Always False) (Fixed ''text'')
     else if functionName \<in> set [''parse_ident'', ''regexp_match'', ''regexp_split_to_array'']
       then Rule SomeArg (Fixed ''text[]'')
     else if functionName = ''string_to_array'' then Rule (OfArg 0) (Fixed ''text[]'')
     else if functionName = ''make_time'' then Rule SomeArg (Fixed ''time'')
     else if functionName \<in> set [''date_bin'', ''make_timestamp''] then Rule SomeArg (Fixed ''timestamp'')
     else if functionName \<in> set [''make_timestamptz'', ''to_timestamp''] then Rule SomeArg (Fixed ''timestamptz'')
     else if functionName \<in> set [''clock_timestamp'', ''now'', ''statement_timestamp'',
        ''transaction_timestamp'']
       then Rule (Always False) (Fixed ''timestamptz'')
     else if functionName = ''gen_random_uuid'' then Rule (Always False) (Fixed ''uuid'')
     else if functionName = ''array_fill'' then Rule (Always False) (ElementArrayOfArg 0)
     else if functionName = ''similar_to_escape'' then Rule (Always False) (Fixed ''text'')
     else Rule (Always True) (Fixed ''any''))"

definition avgType :: "string \<Rightarrow> string" where
  "avgType t = (if t \<in> set [''interval'', ''float8''] then t else if t = ''float4'' then ''float8'' else ''numeric'')"

definition parseSQLValueFunction :: "SQLValueFunctionOp \<Rightarrow> ParsedExpression" where
  "parseSQLValueFunction op = (case op of
      SVFOP_CURRENT_DATE \<Rightarrow> plain False ''date''
    | SVFOP_CURRENT_TIME \<Rightarrow> plain False ''timetz''
    | SVFOP_CURRENT_TIME_N \<Rightarrow> plain False ''timetz''
    | SVFOP_LOCALTIME \<Rightarrow> plain False ''timetz''
    | SVFOP_LOCALTIME_N \<Rightarrow> plain False ''timetz''
    | SVFOP_CURRENT_TIMESTAMP \<Rightarrow> plain False ''timestamptz''
    | SVFOP_CURRENT_TIMESTAMP_N \<Rightarrow> plain False ''timestamptz''
    | SVFOP_LOCALTIMESTAMP \<Rightarrow> plain False ''timestamptz''
    | SVFOP_LOCALTIMESTAMP_N \<Rightarrow> plain False ''timestamptz''
    | SVFOP_CURRENT_ROLE \<Rightarrow> plain False ''text''
    | SVFOP_CURRENT_USER \<Rightarrow> plain False ''text''
    | SVFOP_USER \<Rightarrow> plain False ''text''
    | SVFOP_SESSION_USER \<Rightarrow> plain False ''text''
    | SVFOP_CURRENT_CATALOG \<Rightarrow> plain False ''text''
    | SVFOP_CURRENT_SCHEMA \<Rightarrow> plain False ''text'')"

text \<open>
  \<^verbatim>\<open>parseTypeCast\<close> after its argument has been analyzed. The test \<^verbatim>\<open>constantValue && \<dots>\<close> is
  false for a missing and for an empty constant.
\<close>

definition typeCast :: "ParsedExpression \<Rightarrow> TypeName \<Rightarrow> string \<Rightarrow> error + ParsedExpression" where
  "typeCast arg typeName fallback =
    (case (case names typeName of
             None \<Rightarrow> Inr fallback
           | Some ns \<Rightarrow> if ns = [] then Inl TypeError else Inr (last ns))
     of
       Inl e \<Rightarrow> Inl e
     | Inr t \<Rightarrow>
         if (case constantValue arg of None \<Rightarrow> False
             | Some v \<Rightarrow> v \<noteq> [] \<and> v \<in> set [quoted ''t'', quoted ''f'']) \<and> t = ''bool''
         then Inr (ParsedExpression
                (Some (if constantValue arg = Some (quoted ''t'') then ''true'' else ''false''))
                None (nullable arg) None ''bool'' None)
         else if arrayBounds typeName \<noteq> None then Inr (plain (nullable arg) (t @ ''[]''))
         else Inr (ParsedExpression (constantValue arg) None (nullable arg) None t None))"

section \<open>Target lists, FROM items and statements: the parts without recursion\<close>

text \<open>
  Star expansion in \<^verbatim>\<open>parseTargetList\<close>. The accumulator is a \<^verbatim>\<open>Map\<close> from column name to
  result target.
\<close>

datatype StarKind = StarAll | StarTable string | StarMalformed | NoStar

definition starKind :: "Expression \<Rightarrow> StarKind" where
  "starKind val = (case val of
      ColumnRef fields' \<Rightarrow>
        (case fields' of
           [] \<Rightarrow> StarMalformed
         | A_Star # _ \<Rightarrow> StarAll
         | FString t # A_Star # _ \<Rightarrow> StarTable t
         | _ \<Rightarrow> NoStar)
    | _ \<Rightarrow> NoStar)"

definition setColumns ::
  "Table \<Rightarrow> (string \<times> ParsedExpression) list \<Rightarrow> (string \<times> ParsedExpression) list" where
  "setColumns table acc =
     fold (\<lambda>columnName acc'.
            case map_of (tbl_columns table) columnName of
              Some column \<Rightarrow> AList.update columnName (columnWithName column columnName) acc'
            | None \<Rightarrow> acc')
          (map fst (tbl_columns table)) acc"

definition expandStar ::
  "(string \<times> Table option) list \<Rightarrow> (string \<times> ParsedExpression) list \<Rightarrow> error + (string \<times> ParsedExpression) list" where
  "expandStar tables' acc =
     foldE (\<lambda>acc' tableName.
             case map_of tables' tableName of
               Some (Some table) \<Rightarrow> Inr (setColumns table acc')
             | _ \<Rightarrow> Inl TypeError)
           (map fst tables') acc"

definition expandTableStar ::
  "string \<Rightarrow> (string \<times> Table option) list \<Rightarrow> (string \<times> ParsedExpression) list \<Rightarrow> error + (string \<times> ParsedExpression) list" where
  "expandTableStar tableName tables' acc =
     (case lookupTable tables' tableName of
        None \<Rightarrow> Inl (UnknownTable tableName)
      | Some table \<Rightarrow> Inr (setColumns table acc))"

text \<open>
  The end of the ordinary branch of \<^verbatim>\<open>parseTargetList\<close>: \<^verbatim>\<open>name ?? parsedExpression.name\<close>,
  rejected when missing or empty.
\<close>

definition setTarget ::
  "string option \<Rightarrow> ParsedExpression \<Rightarrow> (string \<times> ParsedExpression) list \<Rightarrow> error + (string \<times> ParsedExpression) list" where
  "setTarget name' parsedExpression acc =
     (case (case name' of Some n \<Rightarrow> Some n | None \<Rightarrow> name parsedExpression) of
        None \<Rightarrow> Inl MissingAlias
      | Some a \<Rightarrow> if a = [] then Inl MissingAlias else Inr (AList.update a (withName parsedExpression a) acc))"

text \<open>
  The \<^verbatim>\<open>reduce\<close> of \<^verbatim>\<open>parseRangeSubselect\<close> and \<^verbatim>\<open>parseCommonTableExpr\<close> that turns result
  targets into the columns of a table, renamed by an optional list of column aliases.
\<close>

definition resultColumns :: "string list \<Rightarrow> ParsedExpression list \<Rightarrow> (string \<times> Column) list" where
  "resultColumns aliascolnames resultTargets =
     fold (\<lambda>(index, resultTarget) acc.
            AList.update
              (case at aliascolnames index of
                 Some n \<Rightarrow> n
               | None \<Rightarrow> (case name resultTarget of Some n \<Rightarrow> n | None \<Rightarrow> ''undefined''))
              \<lparr> col_nullable = nullable resultTarget, col_type = type resultTarget \<rparr> acc)
          (enumerate 0 resultTargets) []"

definition parseRangeVar :: "RangeVar \<Rightarrow> ParsedTable list \<Rightarrow> Context \<Rightarrow> bool \<Rightarrow> error + ParsedTable list" where
  "parseRangeVar rv parsedTables context nullable' =
     (let table = (case map_of (tablesBySchema context)
                         (case schemaname rv of Some s \<Rightarrow> s | None \<Rightarrow> defaultSchema context) of
                     None \<Rightarrow> None
                   | Some schemaTables \<Rightarrow> map_of schemaTables (relname rv));
          name' = (case rv_alias rv of Some a \<Rightarrow> aliasname a | None \<Rightarrow> relname rv)
      in case table of
           None \<Rightarrow> Inl (UnknownTable name')
         | Some t \<Rightarrow> Inr (parsedTables @
             [\<lparr> pt_alias = name', pt_columns = tbl_columns t, pt_nullable = nullable' \<rparr>]))"

text \<open>
  The second half of \<^verbatim>\<open>parseFromClause\<close>: the scope built from the collected tables. A
  nullable table enters with fresh columns, each \<^verbatim>\<open>{ ...column, nullable: true }\<close>.
\<close>

definition scopeEntry :: "ParsedTable \<Rightarrow> Table" where
  "scopeEntry parsedTable =
     (if pt_nullable parsedTable then
        fold (\<lambda>columnName acc.
               case map_of (pt_columns parsedTable) columnName of
                 Some column \<Rightarrow>
                   acc\<lparr> tbl_columns := AList.update columnName (column\<lparr> col_nullable := True \<rparr>) (tbl_columns acc) \<rparr>
               | None \<Rightarrow> acc)
             (map fst (pt_columns parsedTable))
             \<lparr> tbl_columns = [], tbl_nullable = pt_nullable parsedTable \<rparr>
      else \<lparr> tbl_columns = pt_columns parsedTable, tbl_nullable = pt_nullable parsedTable \<rparr>)"

definition scopeTables ::
  "ParsedTable list \<Rightarrow> (string \<times> Table option) list \<Rightarrow> (string \<times> Table option) list" where
  "scopeTables parsedTables initial =
     fold (\<lambda>parsedTable acc. AList.update (pt_alias parsedTable) (Some (scopeEntry parsedTable)) acc)
          parsedTables initial"

definition fromContext :: "ParsedTable list \<Rightarrow> Context \<Rightarrow> Context" where
  "fromContext parsedTables context =
     (let clonedContext = clone context
      in clonedContext\<lparr> tables := scopeTables parsedTables (tables clonedContext) \<rparr>)"

text \<open>The write of \<^verbatim>\<open>parseCommonTableExpr\<close> into the catalog of the context it is given.\<close>

definition installTable :: "string \<Rightarrow> Table \<Rightarrow> Context \<Rightarrow> error + Context" where
  "installTable ctename table context =
     (case map_of (tablesBySchema context) (defaultSchema context) of
        None \<Rightarrow> Inl TypeError
      | Some schemaTables \<Rightarrow>
          Inr (context\<lparr> tablesBySchema :=
                 AList.update (defaultSchema context) (AList.update ctename table schemaTables)
                   (tablesBySchema context) \<rparr>))"

text \<open>
  The first five lines shared by \<^verbatim>\<open>parseDeleteStmt\<close>, \<^verbatim>\<open>parseInsertStmt\<close> and \<^verbatim>\<open>parseUpdateStmt\<close>:
  a clone of the context with the target relation bound in its scope. The catalog lookup is
  stored unchecked; a schema that is not in the catalog is a \<^verbatim>\<open>TypeError\<close>.
\<close>

definition relationContext :: "RangeVar \<Rightarrow> Context \<Rightarrow> error + Context" where
  "relationContext relation context =
     (let clonedContext = clone context;
          schema = (case schemaname relation of Some s \<Rightarrow> s | None \<Rightarrow> defaultSchema context);
          tableName = (case rv_alias relation of Some a \<Rightarrow> aliasname a | None \<Rightarrow> relname relation)
      in case map_of (tablesBySchema context) schema of
           None \<Rightarrow> Inl TypeError
         | Some schemaTables \<Rightarrow>
             Inr (clonedContext\<lparr> tables :=
                    AList.update tableName (map_of schemaTables (relname relation)) (tables clonedContext) \<rparr>))"

text \<open>
  The set-operation branch of \<^verbatim>\<open>parseSelectStmt\<close> after both operands have been analyzed.
\<close>

definition setVariants :: "ParsedExpression \<Rightarrow> ParsedExpression \<Rightarrow> ParsedExpression list" where
  "setVariants lResult rResult = (case (set' lResult, set' rResult) of
      (Some ls, Some rs) \<Rightarrow> ls @ rs
    | (Some ls, None) \<Rightarrow> ls @ [rResult]
    | (None, Some rs) \<Rightarrow> lResult # rs
    | (None, None) \<Rightarrow> [lResult, rResult])"

definition setOperation :: "ParsedExpression list \<Rightarrow> ParsedExpression list \<Rightarrow> error + ParsedExpression list" where
  "setOperation larg rarg =
     mapE (\<lambda>index.
            case at rarg index of
              None \<Rightarrow> Inl TypeError
            | Some rResult \<Rightarrow>
                (let lResult = larg ! index
                 in Inr (ParsedExpression None (name lResult) (nullable lResult \<or> nullable rResult)
                      (Some (setVariants lResult rResult)) (type lResult) None)))
          [0..<length larg]"

text \<open>
  The VALUES branch of \<^verbatim>\<open>parseSelectStmt\<close> after every item has been analyzed. A row shorter
  than the first one is reported as a \<^verbatim>\<open>TypeError\<close> here; the source reads \<^verbatim>\<open>undefined\<close> from
  it and fails when it first touches the value.
\<close>

definition valuesColumns :: "ParsedExpression list list \<Rightarrow> error + ParsedExpression list" where
  "valuesColumns lists' = (case lists' of
      [] \<Rightarrow> Inl TypeError
    | first # _ \<Rightarrow>
        mapE (\<lambda>index.
               case mapE (\<lambda>row. case at row index of None \<Rightarrow> Inl TypeError | Some t \<Rightarrow> Inr t) lists' of
                 Inl e \<Rightarrow> Inl e
               | Inr types' \<Rightarrow>
                   (case types' of
                      [] \<Rightarrow> Inl TypeError
                    | t # _ \<Rightarrow>
                        Inr (ParsedExpression None (Some (''column'' @ toString10 (int index + 1)))
                               (list_ex nullable types') None (type t) (Some types'))))
             [0..<length first])"

lemma size_list_member: "x \<in> set xs \<Longrightarrow> f x < size_list f xs"
  by (induction xs) auto

section \<open>The analyzer\<close>

text \<open>
  \<^verbatim>\<open>parseExpression\<close> switches on the node kind and calls one analyzer per kind; each equation
  below is the body of that analyzer: \<^verbatim>\<open>parseAArrayExpr\<close>, \<^verbatim>\<open>parseAConst\<close>, \<^verbatim>\<open>parseAExpr\<close>,
  \<^verbatim>\<open>parseAIndirection\<close>, \<^verbatim>\<open>parseBoolExpr\<close>, \<^verbatim>\<open>parseBoolTest\<close>, \<^verbatim>\<open>parseCaseExpr\<close>,
  \<^verbatim>\<open>parseCoalesceExpr\<close>, \<^verbatim>\<open>parseColumnRef\<close>, \<^verbatim>\<open>parseFuncCall\<close>, \<^verbatim>\<open>parseList\<close>, \<^verbatim>\<open>parseMinMaxExpr\<close>,
  \<^verbatim>\<open>parseNullTest\<close>, \<^verbatim>\<open>parseParamRef\<close>, \<^verbatim>\<open>parseSQLValueFunction\<close>, \<^verbatim>\<open>parseSubLink\<close>,
  \<^verbatim>\<open>parseTypeCast\<close>, in this order. Likewise the equations of \<open>parseFromItem\<close> are the bodies
  of \<^verbatim>\<open>parseJoinExpr\<close>, \<^verbatim>\<open>parseRangeSubselect\<close> and \<^verbatim>\<open>parseRangeVar\<close>; the array \<^verbatim>\<open>parsedTables\<close>
  that they push to and mark is passed in and returned.

  A scalar subquery without result columns makes the source build an expression without a
  \<^verbatim>\<open>type\<close>; it is reported as a \<^verbatim>\<open>TypeError\<close> here.
\<close>

function
  parseExpression :: "Expression \<Rightarrow> ParsedExpression analysis" and
  parseTargetList :: "ResTarget list \<Rightarrow> ParsedExpression list analysis" and
  parseFromItem :: "FromItem \<Rightarrow> ParsedTable list \<Rightarrow> bool \<Rightarrow> ParsedTable list analysis" and
  parseFromClause :: "FromItem list \<Rightarrow> Context analysis" and
  parseCommonTableExpr :: "CommonTableExpr \<Rightarrow> unit analysis" and
  parseWithClause :: "CommonTableExpr list \<Rightarrow> Context analysis" and
  parseDeleteStmt :: "RangeVar \<Rightarrow> ResTarget list option \<Rightarrow> ParsedExpression list analysis" and
  parseInsertStmt :: "RangeVar \<Rightarrow> ResTarget list option \<Rightarrow> ParsedExpression list analysis" and
  parseSelectStmt :: "SelectStmt \<Rightarrow> ParsedExpression list analysis" and
  parseUpdateStmt :: "RangeVar \<Rightarrow> ResTarget list option \<Rightarrow> ParsedExpression list analysis" and
  parseStmt :: "Stmt \<Rightarrow> ParsedExpression list analysis"
where
  "parseExpression (A_ArrayExpr elements) context =
     bindA (argA (\<lambda>e. parseExpression e) elements 0)
       (\<lambda>first. returnA (plain False (type first @ ''[]''))) context"
| "parseExpression (A_Const val) context = liftA (parseAConst val) context"
| "parseExpression (A_Expr kind lexpr name' rexpr) context =
     (if kind = AEXPR_OP then
        (if name' = [] then throwA TypeError context
         else bindA (optA (\<lambda>e. parseExpression e) lexpr) (\<lambda>l.
              bindA (optA (\<lambda>e. parseExpression e) rexpr) (\<lambda>r.
              liftA (parseAExprOp (last name') l r))) context)
      else if kind \<in> set [AEXPR_OP_ANY, AEXPR_OP_ALL, AEXPR_IN, AEXPR_LIKE, AEXPR_ILIKE, AEXPR_SIMILAR,
           AEXPR_BETWEEN, AEXPR_NOT_BETWEEN, AEXPR_BETWEEN_SYM, AEXPR_NOT_BETWEEN_SYM] then
        bindA (reqA (\<lambda>e. parseExpression e) lexpr) (\<lambda>l context'.
          if nullable l then returnA (plain True ''bool'') context'
          else bindA (reqA (\<lambda>e. parseExpression e) rexpr)
                 (\<lambda>r. returnA (plain (nullable r) ''bool'')) context') context
      else if kind \<in> set [AEXPR_DISTINCT, AEXPR_NOT_DISTINCT] then returnA (plain False ''bool'') context
      else if kind = AEXPR_NULLIF then
        bindA (reqA (\<lambda>e. parseExpression e) lexpr) (\<lambda>l. returnA (withNullable l True)) context
      else throwA (Unsupported ''expression kind'') context)"
| "parseExpression (A_Indirection arg indirection) context =
     bindA (parseExpression arg) (\<lambda>a context'.
       if isArray (type a) then
         (if length indirection > 1 then throwA (Unsupported ''multidimensional arrays'') context'
          else
            (case indirection of
               [] \<Rightarrow> throwA TypeError context'
             | A_Indices isSlice lidx uidx # _ \<Rightarrow>
                 if isSlice then
                   (if nullable a then returnA (plain True (type a)) context'
                    else
                      bindA (optA (\<lambda>e. parseExpression e) lidx) (\<lambda>l context''.
                        if (case l of None \<Rightarrow> False | Some x \<Rightarrow> nullable x)
                        then returnA (plain True (type a)) context''
                        else
                          bindA (optA (\<lambda>e. parseExpression e) uidx) (\<lambda>u.
                            returnA (plain (case u of None \<Rightarrow> False | Some x \<Rightarrow> nullable x) (type a)))
                            context'') context')
                 else returnA (plain True (getElementType (type a))) context'))
       else if isJson (type a) then returnA (plain True ''any'') context'
       else throwA (Unsupported (type a)) context') context"
| "parseExpression (BoolExpr args) context =
     bindA (mapA (\<lambda>arg. parseExpression arg) args) (\<lambda>expressions.
       returnA (plain (list_ex nullable expressions) ''bool'')) context"
| "parseExpression (BoolTest arg) context = returnA (plain False ''bool'') context"
| "parseExpression (CaseExpr args defresult) context =
     bindA (mapA (\<lambda>arg. case arg of CaseWhen expr result \<Rightarrow> parseExpression result) args) (\<lambda>results.
     bindA (optA (\<lambda>e. parseExpression e) defresult) (\<lambda>defaultResult.
       let possibleResults = (case defaultResult of Some d \<Rightarrow> results @ [d] | None \<Rightarrow> results)
       in case results of
            [] \<Rightarrow> throwA TypeError
          | first # _ \<Rightarrow>
              returnA (ParsedExpression None None
                (defaultResult = None \<or> list_ex nullable possibleResults)
                None (type first) (Some possibleResults)))) context"
| "parseExpression (CoalesceExpr args) context =
     bindA (pushUntilA (\<lambda>arg. parseExpression arg) (\<lambda>expression. \<not> nullable expression) args) (\<lambda>types'.
       case types' of
         [] \<Rightarrow> throwA TypeError
       | first # _ \<Rightarrow>
           returnA (ParsedExpression None None (list_all nullable types') None (type first) (Some types'))) context"
| "parseExpression (ColumnRef fields') context = liftA (parseColumnRef fields' (tables context)) context"
| "parseExpression (FuncCall funcname args) context =
     (if funcname = [] then throwA TypeError context
      else
        (case funcRule (last funcname) of
           Avg \<Rightarrow>
             bindA (argA (\<lambda>e. parseExpression e) args 0) (\<lambda>a.
               returnA (plain (nullable a) (avgType (type a)))) context
         | Rule nullableRule typeRule \<Rightarrow>
             bindA (\<lambda>context'. case nullableRule of
                      SomeArg \<Rightarrow>
                        someA (\<lambda>arg context''. bindA (parseExpression arg) (\<lambda>x. returnA (nullable x)) context'')
                          args context'
                    | OfArg i \<Rightarrow>
                        bindA (argA (\<lambda>e. parseExpression e) args i) (\<lambda>x. returnA (nullable x)) context'
                    | Always b \<Rightarrow> returnA b context') (\<lambda>n.
             bindA (\<lambda>context'. case typeRule of
                      TypeOfArg i \<Rightarrow>
                        bindA (argA (\<lambda>e. parseExpression e) args i) (\<lambda>x. returnA (type x)) context'
                    | Fixed t \<Rightarrow> returnA t context'
                    | ElementArrayOfArg i \<Rightarrow>
                        bindA (argA (\<lambda>e. parseExpression e) args i)
                          (\<lambda>x. returnA (getElementType (type x) @ ''[]'')) context') (\<lambda>t.
               returnA (plain n t))) context))"
| "parseExpression (List items) context =
     bindA (mapA (\<lambda>item. parseExpression item) items) (\<lambda>expressions.
       case expressions of
         [] \<Rightarrow> throwA TypeError
       | first # _ \<Rightarrow>
           returnA (ParsedExpression None None (list_ex nullable expressions) None (type first)
             (Some expressions))) context"
| "parseExpression (MinMaxExpr args) context =
     bindA (mapA (\<lambda>arg. parseExpression arg) args) (\<lambda>types'.
       case types' of
         [] \<Rightarrow> throwA TypeError
       | first # _ \<Rightarrow> returnA (plain (list_all nullable types') (type first))) context"
| "parseExpression (NullTest arg) context = returnA (plain False ''bool'') context"
| "parseExpression ParamRef context = returnA (plain True ''any'') context"
| "parseExpression (SQLValueFunction op) context = returnA (parseSQLValueFunction op) context"
| "parseExpression (SubLink subLinkType subselect) context =
     (case subLinkType of
        ALL_SUBLINK \<Rightarrow> returnA (plain True ''bool'') context
      | ANY_SUBLINK \<Rightarrow> returnA (plain True ''bool'') context
      | ARRAY_SUBLINK \<Rightarrow>
          bindA (parseStmt subselect) (\<lambda>resultTargets.
            case resultTargets of
              [] \<Rightarrow> throwA TypeError
            | first # _ \<Rightarrow> returnA (plain False (type first @ ''[]''))) context
      | EXISTS_SUBLINK \<Rightarrow> returnA (plain False ''bool'') context
      | ROWCOMPARE_SUBLINK \<Rightarrow> returnA (plain False ''bool'') context
      | EXPR_SUBLINK \<Rightarrow>
          bindA (parseStmt subselect) (\<lambda>resultTargets.
            case resultTargets of
              [] \<Rightarrow> throwA TypeError
            | expression # _ \<Rightarrow> returnA (withNullable expression True)) context
      | MULTIEXPR_SUBLINK \<Rightarrow> returnA (plain False ''any'') context
      | OTHER_SUBLINK t \<Rightarrow> throwA (Unsupported t) context)"
| "parseExpression (TypeCast arg typeName) context =
     bindA (parseExpression arg)
       (\<lambda>a context'. liftA (typeCast a typeName (fallbackType context')) context') context"
| "parseExpression (OtherExpression nodeType) context = throwA (Unsupported nodeType) context"

| "parseTargetList targetList context =
     (let tables' = tables context
      in bindA (foldA (\<lambda>acc target context'.
                  case target of ResTarget name' val \<Rightarrow>
                    (case starKind val of
                       StarMalformed \<Rightarrow> throwA TypeError context'
                     | StarAll \<Rightarrow> liftA (expandStar tables' acc) context'
                     | StarTable tableName \<Rightarrow> liftA (expandTableStar tableName tables' acc) context'
                     | NoStar \<Rightarrow>
                         bindA (parseExpression val)
                           (\<lambda>parsedExpression. liftA (setTarget name' parsedExpression acc)) context'))
                targetList [])
           (\<lambda>acc. returnA (map snd acc)) context)"

| "parseFromItem (JoinExpr jointype larg rarg) parsedTables nullable' context =
     bindA (parseFromItem larg parsedTables False) (\<lambda>parsedTables'.
       parseFromItem rarg
         (if jointype \<in> set [JOIN_RIGHT, JOIN_FULL]
          then map (\<lambda>parsedTable. parsedTable\<lparr> pt_nullable := True \<rparr>) parsedTables'
          else parsedTables')
         (jointype \<in> set [JOIN_LEFT, JOIN_FULL])) context"
| "parseFromItem (RangeSubselect alias' subquery) parsedTables nullable' context =
     bindA (parseSelectStmt subquery) (\<lambda>resultTargets.
       returnA (parsedTables @
         [\<lparr> pt_alias = aliasname alias',
            pt_columns = resultColumns (orEmpty (colnames alias')) resultTargets,
            pt_nullable = nullable' \<rparr>])) context"
| "parseFromItem (RangeVar rv) parsedTables nullable' context =
     liftA (parseRangeVar rv parsedTables context nullable') context"
| "parseFromItem (OtherFromItem nodeType) parsedTables nullable' context =
     throwA (Unsupported nodeType) context"

| "parseFromClause fromItems context =
     bindA (foldA (\<lambda>parsedTables fromItem context'.
              bindA (parseFromItem fromItem [] False)
                (\<lambda>pushed. returnA (parsedTables @ pushed)) context')
            fromItems [])
       (\<lambda>parsedTables context'. returnA (fromContext parsedTables context') context') context"

| "parseCommonTableExpr (CommonTableExpr ctename aliascolnames ctequery) context =
     bindA (parseStmt ctequery) (\<lambda>resultTargets context'.
       case installTable ctename
              \<lparr> tbl_columns = resultColumns aliascolnames resultTargets, tbl_nullable = False \<rparr> context' of
         Inl e \<Rightarrow> (Inl e, context')
       | Inr written \<Rightarrow> (Inr (), written)) context"

| "parseWithClause ctes context =
     bindA (execOn (mapA (\<lambda>cte. parseCommonTableExpr cte) ctes) (clone context))
       (\<lambda>done. returnA (snd done)) context"

| "parseDeleteStmt relation returningList context =
     (case relationContext relation context of
        Inl e \<Rightarrow> throwA e context
      | Inr clonedContext \<Rightarrow>
          bindA (execOn (parseTargetList (orEmpty returningList)) clonedContext)
            (\<lambda>done. returnA (fst done)) context)"

| "parseInsertStmt relation returningList context =
     (case relationContext relation context of
        Inl e \<Rightarrow> throwA e context
      | Inr clonedContext \<Rightarrow>
          bindA (execOn (parseTargetList (orEmpty returningList)) clonedContext)
            (\<lambda>done. returnA (fst done)) context)"

| "parseSelectStmt (Values valuesLists) context =
     bindA (mapA (\<lambda>valuesList context'. mapA (\<lambda>item. parseExpression item) valuesList context') valuesLists)
       (\<lambda>lists'. liftA (valuesColumns lists')) context"
| "parseSelectStmt (SetOperation larg rarg) context =
     bindA (parseSelectStmt larg) (\<lambda>l.
     bindA (parseSelectStmt rarg) (\<lambda>r.
       liftA (setOperation l r))) context"
| "parseSelectStmt (Select targetList fromClause withClause) context =
     (case withClause of
        None \<Rightarrow>
          (case fromClause of
             None \<Rightarrow> parseTargetList (orEmpty targetList) context
           | Some fromItems \<Rightarrow>
               bindA (parseFromClause fromItems) (\<lambda>contextWithFrom.
               bindA (execOn (parseTargetList (orEmpty targetList)) contextWithFrom) (\<lambda>done.
                 returnA (fst done))) context)
      | Some ctes \<Rightarrow>
          bindA (parseWithClause ctes) (\<lambda>contextWithWith context'.
            case fromClause of
              None \<Rightarrow>
                bindA (execOn (parseTargetList (orEmpty targetList)) contextWithWith) (\<lambda>done.
                  returnA (fst done)) context'
            | Some fromItems \<Rightarrow>
                bindA (execOn (parseFromClause fromItems) contextWithWith) (\<lambda>scoped.
                bindA (execOn (parseTargetList (orEmpty targetList)) (fst scoped)) (\<lambda>done.
                  returnA (fst done))) context') context)"

| "parseUpdateStmt relation returningList context =
     (case relationContext relation context of
        Inl e \<Rightarrow> throwA e context
      | Inr clonedContext \<Rightarrow>
          bindA (execOn (parseTargetList (orEmpty returningList)) clonedContext)
            (\<lambda>done. returnA (fst done)) context)"

| "parseStmt (DeleteStmt relation returningList) context = parseDeleteStmt relation returningList context"
| "parseStmt (InsertStmt relation returningList) context = parseInsertStmt relation returningList context"
| "parseStmt (SelectStmt stmt) context = parseSelectStmt stmt context"
| "parseStmt (UpdateStmt relation returningList) context = parseUpdateStmt relation returningList context"
| "parseStmt (OtherStmt nodeType) context = throwA (Unsupported nodeType) context"
  by pat_completeness auto

termination
  by (relation "measure (\<lambda>x. case x of
      Inl (Inl (Inl (e, c))) \<Rightarrow> 2 * size e
    | Inl (Inl (Inr (targetList, c))) \<Rightarrow> 2 * size_list size targetList
    | Inl (Inr (Inl (fromItem, p, n, c))) \<Rightarrow> 2 * size fromItem
    | Inl (Inr (Inr (Inl (fromItems, c)))) \<Rightarrow> 2 * size_list size fromItems
    | Inl (Inr (Inr (Inr (cte, c)))) \<Rightarrow> 2 * size cte
    | Inr (Inl (Inl (ctes, c))) \<Rightarrow> 2 * size_list size ctes
    | Inr (Inl (Inr (Inl (r, returningList, c)))) \<Rightarrow> 2 * size_option (size_list size) returningList + 1
    | Inr (Inl (Inr (Inr (r, returningList, c)))) \<Rightarrow> 2 * size_option (size_list size) returningList + 1
    | Inr (Inr (Inl (stmt, c))) \<Rightarrow> 2 * size stmt
    | Inr (Inr (Inr (Inl (r, returningList, c)))) \<Rightarrow> 2 * size_option (size_list size) returningList + 1
    | Inr (Inr (Inr (Inr (stmt, c)))) \<Rightarrow> 2 * size stmt)")
    (auto simp: termination_simp size_list_member)

lemmas analyzer_induct =
  parseExpression_parseTargetList_parseFromItem_parseFromClause_parseCommonTableExpr_parseWithClause_parseDeleteStmt_parseInsertStmt_parseSelectStmt_parseUpdateStmt_parseStmt.induct

section \<open>Formatter\<close>

text \<open>
  \<^verbatim>\<open>formatExpression\<close>. \<open>tsUnionMembers\<close> is the array \<^verbatim>\<open>unique(tsTypes)\<close> and \<open>tsUnionType\<close> the
  string joined from it, the rendered type of the column; \<^verbatim>\<open>formatFunc\<close> pairs it with the
  column name.
\<close>

definition tsType :: "Context \<Rightarrow> ParsedExpression \<Rightarrow> error + string" where
  "tsType context expression = (case constantValue expression of
      Some v \<Rightarrow> Inr v
    | None \<Rightarrow> (case mapType context of None \<Rightarrow> Inl TypeError | Some f \<Rightarrow> Inr (f (type expression))))"

definition tsUnionMembers :: "ParsedExpression \<Rightarrow> Context \<Rightarrow> error + string list" where
  "tsUnionMembers e context =
     (case mapE (tsType context) (case types e of Some ts \<Rightarrow> ts | None \<Rightarrow> [e]) of
        Inl err \<Rightarrow> Inl err
      | Inr tsTypes \<Rightarrow> Inr (unique (if nullable e then tsTypes @ [''null''] else tsTypes)))"

definition tsUnionType :: "ParsedExpression \<Rightarrow> Context \<Rightarrow> error + string" where
  "tsUnionType e context =
     (case tsUnionMembers e context of Inl err \<Rightarrow> Inl err | Inr members \<Rightarrow> Inr (join '' | '' members))"

definition formatExpression :: "ParsedExpression \<Rightarrow> Context \<Rightarrow> error + string" where
  "formatExpression e context =
     (case tsUnionType e context of
        Inl err \<Rightarrow> Inl err
      | Inr rendered \<Rightarrow>
          (case formatFunc context of
             None \<Rightarrow> Inl TypeError
           | Some f \<Rightarrow> Inr (f (case name e of Some n \<Rightarrow> n | None \<Rightarrow> []) rendered)))"

text \<open>
  \<^verbatim>\<open>format\<close>: \<open>formatSource\<close> is the string \<^verbatim>\<open>source\<close> handed to the pretty printer, which is a
  parameter (\<^verbatim>\<open>prettierFormat\<close> with the options fixed); its output loses the leading
  \<^verbatim>\<open>type T =\<close> and is trimmed.
\<close>

definition object :: "string list \<Rightarrow> string" where
  "object columns = join '' '' ([''{''] @ columns @ [''}''])"

definition formatSource :: "ParsedExpression list \<Rightarrow> Context \<Rightarrow> error + string" where
  "formatSource resultTargets context = (case resultTargets of
      [] \<Rightarrow> Inr ''{[K in any]: never}''
    | first # _ \<Rightarrow>
        if list_all (\<lambda>t. set' t \<noteq> None) resultTargets then
          (case mapE (\<lambda>index.
                   case mapE (\<lambda>t. case at (orEmpty (set' t)) index of
                                     None \<Rightarrow> Inl TypeError
                                   | Some variant \<Rightarrow> formatExpression variant context) resultTargets of
                     Inl e \<Rightarrow> Inl e
                   | Inr columns \<Rightarrow> Inr (object columns))
                 [0..<length (orEmpty (set' first))] of
             Inl e \<Rightarrow> Inl e
           | Inr objects \<Rightarrow> Inr (join '' | '' objects))
        else
          (case mapE (\<lambda>expression. formatExpression expression context) resultTargets of
             Inl e \<Rightarrow> Inl e
           | Inr columns \<Rightarrow> Inr (object columns)))"

definition isSpace :: "char \<Rightarrow> bool" where
  "isSpace ch \<longleftrightarrow> ch \<in> set [CHR 0x20, CHR 0x09, CHR 0x0A, CHR 0x0B, CHR 0x0C, CHR 0x0D]"

definition removeTypeT :: "string \<Rightarrow> string" where
  "removeTypeT formatted =
     (if take 6 formatted = ''type T'' then
        (case dropWhile isSpace (drop 6 formatted) of
           [] \<Rightarrow> formatted
         | ch # rest \<Rightarrow> if ch = CHR ''='' then dropWhile isSpace rest else formatted)
      else formatted)"

definition trim :: "string \<Rightarrow> string" where
  "trim s = rev (dropWhile isSpace (rev (dropWhile isSpace s)))"

definition format :: "(string \<Rightarrow> error + string) \<Rightarrow> ParsedExpression list \<Rightarrow> Context \<Rightarrow> error + string" where
  "format prettierFormat resultTargets context =
     (case formatSource resultTargets context of
        Inl e \<Rightarrow> Inl e
      | Inr source \<Rightarrow>
          (case prettierFormat (''type T = '' @ source) of
             Inl e \<Rightarrow> Inl e
           | Inr formatted \<Rightarrow> Inr (trim (removeTypeT formatted))))"

section \<open>Driver\<close>

text \<open>
  \<^verbatim>\<open>parseQuery\<close>: the parser is a parameter. The \<^verbatim>\<open>try\<close> block returns \<^verbatim>\<open>{ results }\<close>, the \<^verbatim>\<open>catch\<close>
  block \<^verbatim>\<open>{ error }\<close>. Next to the value the function returns the contents of the context
  object after the call.
\<close>

datatype QueryResult = Results "string list" | Error error

definition parseRawStmt :: "RawStmt \<Rightarrow> ParsedExpression list analysis" where
  "parseRawStmt rawStmt = (case rawStmt of RawStmt stmt \<Rightarrow> parseStmt stmt)"

definition parseQuery ::
  "(string \<Rightarrow> error + RawStmt list) \<Rightarrow> (string \<Rightarrow> error + string) \<Rightarrow> string \<Rightarrow> Context
    \<Rightarrow> QueryResult \<times> Context" where
  "parseQuery parse prettierFormat query context =
     (case parse query of
        Inl e \<Rightarrow> (Error e, context)
      | Inr rawStmts \<Rightarrow>
          (case mapA (\<lambda>rawStmt. bindA (parseRawStmt rawStmt)
                       (\<lambda>resultTargets context'. (format prettierFormat resultTargets context', context')))
                  rawStmts context of
             (Inl e, context') \<Rightarrow> (Error e, context')
           | (Inr results, context') \<Rightarrow> (Results results, context')))"

text \<open>
  \<^verbatim>\<open>getTypeMapper\<close>: the enum labels come from the database and are a parameter, like the
  custom type map. The spread \<^verbatim>\<open>{ ...defaults, ...enums, ...customTypeMap }\<close> lets the later
  map win; \<^verbatim>\<open>|| fallbackType\<close> also replaces an empty string.
\<close>

definition defaultTypeMap :: "(string \<times> string) list" where
  "defaultTypeMap =
     [(''any'', ''any''), (''bool'', ''boolean''), (''bigserial'', ''number''), (''bit'', ''string''),
      (''bpchar'', ''string''), (''bytea'', ''Buffer''), (''cidr'', ''string''), (''citext'', ''string''),
      (''circle'', ''string''), (''date'', ''string''), (''decimal'', ''number''), (''float2'', ''number''),
      (''float4'', ''number''), (''float8'', ''number''), (''int2'', ''number''), (''int4'', ''number''),
      (''int8'', ''number''), (''inet'', ''string''), (''interval'', ''string''), (''json'', ''any''),
      (''jsonb'', ''any''), (''line'', ''string''), (''lseg'', ''string''), (''macaddr'', ''string''),
      (''macaddr8'', ''string''), (''money'', ''string''), (''null'', ''null''), (''numeric'', ''number''),
      (''oid'', ''number''), (''path'', ''string''), (''point'', ''string''), (''polygon'', ''string''),
      (''serial'', ''number''), (''serial2'', ''number''), (''serial4'', ''number''), (''serial8'', ''number''),
      (''smallserial'', ''number''), (''text'', ''string''), (''time'', ''string''),
      (''timestamp'', ''string''), (''timestamptz'', ''string''), (''timetz'', ''string''),
      (''tsquery'', ''string''), (''tsvector'', ''string''), (''unknown'', ''unknown''), (''uuid'', ''string''),
      (''varbit'', ''string''), (''varchar'', ''string''), (''xml'', ''string'')]"

definition getTypeMapper ::
  "(string \<rightharpoonup> string) \<Rightarrow> (string \<rightharpoonup> string) \<Rightarrow> string \<Rightarrow> string \<Rightarrow> string" where
  "getTypeMapper enums customTypeMap fallback pgType =
     (let tsType' = (case (map_of defaultTypeMap ++ enums ++ customTypeMap) (getElementType pgType) of
                       None \<Rightarrow> fallback
                     | Some t \<Rightarrow> if t = [] then fallback else t)
      in if isArray pgType then ''Array<'' @ tsType' @ ''>'' else tsType')"

text \<open>
  \<^verbatim>\<open>createTypeGenerator\<close>: the context of a generator, given the catalog and the enum labels
  loaded from the database, and \<^verbatim>\<open>generate\<close>, which runs every query on that context.
\<close>

definition defaultFormatFunc :: "string \<Rightarrow> string \<Rightarrow> string" where
  "defaultFormatFunc name' tsType' = quoted name' @ '': '' @ tsType' @ '',''"

definition generatorContext ::
  "string \<Rightarrow> string \<Rightarrow> (string \<Rightarrow> string \<Rightarrow> string) \<Rightarrow> (string \<rightharpoonup> string) \<Rightarrow> (string \<rightharpoonup> string)
    \<Rightarrow> TablesBySchema \<Rightarrow> Context" where
  "generatorContext defaultSchema' fallback formatFunc' customTypeMap enums catalog =
     \<lparr> tables = [],
       defaultSchema = defaultSchema',
       fallbackType = fallback,
       formatFunc = Some formatFunc',
       mapType = Some (getTypeMapper enums customTypeMap fallback),
       tablesBySchema = catalog \<rparr>"

definition generate ::
  "(string \<Rightarrow> error + RawStmt list) \<Rightarrow> (string \<Rightarrow> error + string) \<Rightarrow> Context \<Rightarrow> string
    \<Rightarrow> QueryResult \<times> Context" where
  "generate parse prettierFormat context query = parseQuery parse prettierFormat query context"

section \<open>A small catalog for worked examples\<close>

text \<open>
  Three tables of the sample database that the test suite queries (\<^verbatim>\<open>customer\<close>, \<^verbatim>\<open>address\<close>,
  \<^verbatim>\<open>film\<close>), reduced to a few columns, and the context of a generator with default options.
\<close>

definition customerTable :: Table where
  "customerTable =
     \<lparr> tbl_columns =
         [(''customer_id'', \<lparr> col_nullable = False, col_type = ''int4'' \<rparr>),
          (''first_name'', \<lparr> col_nullable = False, col_type = ''text'' \<rparr>),
          (''email'', \<lparr> col_nullable = True, col_type = ''text'' \<rparr>),
          (''address_id'', \<lparr> col_nullable = False, col_type = ''int2'' \<rparr>)],
       tbl_nullable = False \<rparr>"

definition addressTable :: Table where
  "addressTable =
     \<lparr> tbl_columns =
         [(''address_id'', \<lparr> col_nullable = False, col_type = ''int4'' \<rparr>),
          (''address'', \<lparr> col_nullable = False, col_type = ''text'' \<rparr>),
          (''postal_code'', \<lparr> col_nullable = True, col_type = ''text'' \<rparr>)],
       tbl_nullable = False \<rparr>"

definition filmTable :: Table where
  "filmTable =
     \<lparr> tbl_columns =
         [(''film_id'', \<lparr> col_nullable = False, col_type = ''int4'' \<rparr>),
          (''special_features'', \<lparr> col_nullable = True, col_type = ''text[]'' \<rparr>)],
       tbl_nullable = False \<rparr>"

definition exampleCatalog :: TablesBySchema where
  "exampleCatalog =
     [(''public'', [(''customer'', customerTable), (''address'', addressTable), (''film'', filmTable)])]"

definition exampleContext :: Context where
  "exampleContext =
     generatorContext ''public'' ''string'' defaultFormatFunc Map.empty Map.empty exampleCatalog"

text \<open>The scope of \<^verbatim>\<open>FROM address\<close>, and of \<^verbatim>\<open>FROM film\<close>.\<close>

definition addressScope :: Context where
  "addressScope = exampleContext \<lparr> tables := [(''address'', Some addressTable)] \<rparr>"

definition filmScope :: Context where
  "filmScope = exampleContext \<lparr> tables := [(''film'', Some filmTable)] \<rparr>"

text \<open>The scope of \<^verbatim>\<open>FROM customer c JOIN address a\<close>.\<close>

definition joinScope :: Context where
  "joinScope = exampleContext \<lparr> tables := [(''c'', Some customerTable), (''a'', Some addressTable)] \<rparr>"

text \<open>
  \<^verbatim>\<open>WITH person AS (SELECT c.first_name FROM customer c) SELECT p.* FROM person p\<close>, and
  \<^verbatim>\<open>SELECT 1\<close>, whose only column has no name.
\<close>

definition customerC :: FromItem where
  "customerC = RangeVar \<lparr> rv_alias = Some \<lparr> aliasname = ''c'', colnames = None \<rparr>, relname = ''customer'', schemaname = None \<rparr>"

definition personCte :: CommonTableExpr where
  "personCte = CommonTableExpr ''person'' []
     (SelectStmt (Select (Some [ResTarget None (ColumnRef [FString ''c'', FString ''first_name''])])
        (Some [customerC]) None))"

definition personQuery :: Stmt where
  "personQuery = SelectStmt (Select
     (Some [ResTarget None (ColumnRef [FString ''p'', A_Star])])
     (Some [RangeVar \<lparr> rv_alias = Some \<lparr> aliasname = ''p'', colnames = None \<rparr>, relname = ''person'', schemaname = None \<rparr>])
     (Some [personCte]))"

definition unnamedQuery :: Stmt where
  "unnamedQuery = SelectStmt (Select (Some [ResTarget None (A_Const (Integer 1))]) None None)"

text \<open>A stand-in for the SQL parser: two sources it accepts, every other one is a syntax error.\<close>

definition exampleParse :: "string \<Rightarrow> error + RawStmt list" where
  "exampleParse query =
     (if query = ''first'' then Inr [RawStmt personQuery, RawStmt unnamedQuery]
      else if query = ''second'' then Inr [RawStmt personQuery]
      else Inl (External ''syntax error''))"

text \<open>
  The FROM items \<^verbatim>\<open>address a\<close> and \<^verbatim>\<open>film\<close>, and the scope entries of \<^verbatim>\<open>customer\<close> and \<^verbatim>\<open>address\<close>
  with every column nullable.
\<close>

definition addressA :: FromItem where
  "addressA = RangeVar \<lparr> rv_alias = Some \<lparr> aliasname = ''a'', colnames = None \<rparr>, relname = ''address'', schemaname = None \<rparr>"

definition filmItem :: FromItem where
  "filmItem = RangeVar \<lparr> rv_alias = None, relname = ''film'', schemaname = None \<rparr>"

definition nullableCustomer :: Table where
  "nullableCustomer =
     \<lparr> tbl_columns =
         [(''customer_id'', \<lparr> col_nullable = True, col_type = ''int4'' \<rparr>),
          (''first_name'', \<lparr> col_nullable = True, col_type = ''text'' \<rparr>),
          (''email'', \<lparr> col_nullable = True, col_type = ''text'' \<rparr>),
          (''address_id'', \<lparr> col_nullable = True, col_type = ''int2'' \<rparr>)],
       tbl_nullable = True \<rparr>"

definition nullableAddress :: Table where
  "nullableAddress =
     \<lparr> tbl_columns =
         [(''address_id'', \<lparr> col_nullable = True, col_type = ''int4'' \<rparr>),
          (''address'', \<lparr> col_nullable = True, col_type = ''text'' \<rparr>),
          (''postal_code'', \<lparr> col_nullable = True, col_type = ''text'' \<rparr>)],
       tbl_nullable = True \<rparr>"

text \<open>
  \<^verbatim>\<open>SELECT (SELECT 1 a UNION SELECT 2 a) x UNION SELECT 3 x\<close>: a set operation of two operand
  queries, the first of which selects a scalar subquery that is itself a set operation.
\<close>

definition selectConstant :: "int \<Rightarrow> string \<Rightarrow> SelectStmt" where
  "selectConstant ival alias' = Select (Some [ResTarget (Some alias') (A_Const (Integer ival))]) None None"

definition oneOrTwo :: Stmt where
  "oneOrTwo = SelectStmt (SetOperation (selectConstant 1 ''a'') (selectConstant 2 ''a''))"

definition scalarOperand :: SelectStmt where
  "scalarOperand = Select (Some [ResTarget (Some ''x'') (SubLink EXPR_SUBLINK oneOrTwo)]) None None"

definition leakQuery :: SelectStmt where
  "leakQuery = SetOperation scalarOperand (selectConstant 3 ''x'')"

definition constantColumn :: "string \<Rightarrow> string \<Rightarrow> ParsedExpression" where
  "constantColumn literal alias' = ParsedExpression (Some literal) (Some alias') False None ''int4'' None"

section \<open>Vocabulary of the statements\<close>



text \<open>The schema in which DELETE, INSERT and UPDATE look their relation up.\<close>

definition relationSchema :: "RangeVar \<Rightarrow> Context \<Rightarrow> string" where
  "relationSchema relation context = (case schemaname relation of Some s \<Rightarrow> s | None \<Rightarrow> defaultSchema context)"


text \<open>
  What \<^verbatim>\<open>parseQuery\<close> computes for one statement of the source: the analysis, then the
  formatting of its result columns.
\<close>

definition formatStmt :: "(string \<Rightarrow> error + string) \<Rightarrow> Context \<Rightarrow> RawStmt \<Rightarrow> error + string" where
  "formatStmt prettierFormat context rawStmt =
     (case rawStmt of RawStmt stmt \<Rightarrow>
        (case fst (parseStmt stmt context) of
           Inl e \<Rightarrow> Inl e
         | Inr resultTargets \<Rightarrow> format prettierFormat resultTargets context))"









text \<open>
  The operand queries of a set operation, nested set operations flattened, in source order; a
  query that is no set operation is its own single operand.
\<close>

fun operands :: "SelectStmt \<Rightarrow> SelectStmt list" where
  "operands (SetOperation larg rarg) = operands larg @ operands rarg"
| "operands (Select targetList fromClause withClause) = [Select targetList fromClause withClause]"
| "operands (Values valuesLists) = [Values valuesLists]"

text \<open>
  The set variants a result column stands for: its \<^verbatim>\<open>set\<close> when it has one, the column itself
  otherwise. \<open>operandResults\<close> are the result columns of the operand queries, each analyzed on
  its own.
\<close>

definition variantsOf :: "ParsedExpression \<Rightarrow> ParsedExpression list" where
  "variantsOf column = (case set' column of Some variants \<Rightarrow> variants | None \<Rightarrow> [column])"

definition operandResults :: "SelectStmt \<Rightarrow> Context \<Rightarrow> ParsedExpression list list" where
  "operandResults stmt context =
     map (\<lambda>operand. case fst (parseSelectStmt operand context) of Inl e \<Rightarrow> [] | Inr resultTargets \<Rightarrow> resultTargets)
         (operands stmt)"

lemmas example_defs = customerTable_def addressTable_def filmTable_def exampleCatalog_def
  exampleContext_def addressScope_def filmScope_def joinScope_def generatorContext_def

lemmas analysis_defs = bindA_def returnA_def throwA_def liftA_def execOn_def argA_def optA_def reqA_def

lemmas eval_defs = analysis_defs example_defs parseColumnRef_def parseAConst_def columnWithName_def
  orEmpty_def Let_def starKind_def setTarget_def withName_def expandStar_def expandTableStar_def
  setColumns_def lookupTable_def parseRangeVar_def fromContext_def scopeTables_def scopeEntry_def
  clone_def resultColumns_def installTable_def relationContext_def at_def enumerate_eq_zip
  plain_def withNullable_def

section \<open>The analysis leaves its context as it found it\<close>

lemma frame_returnA [simp]: "snd (returnA x c) = c"
  by (simp add: returnA_def)

lemma frame_throwA [simp]: "snd (throwA e c) = c"
  by (simp add: throwA_def)

lemma frame_liftA [simp]: "snd (liftA r c) = c"
  by (simp add: liftA_def)

lemma frame_execOn [simp]: "snd (execOn m other c) = c"
  by (simp add: execOn_def split: prod.splits sum.splits)

lemma frame_bindA:
  "snd (m c) = c \<Longrightarrow> (\<And>x. m c = (Inr x, c) \<Longrightarrow> snd (f x c) = c) \<Longrightarrow> snd (bindA m f c) = c"
  by (auto simp: bindA_def split: prod.splits sum.splits)

lemma frame_mapA:
  "(\<And>x c. x \<in> set xs \<Longrightarrow> snd (f x c) = c) \<Longrightarrow> snd (mapA f xs c) = c"
  by (induction xs arbitrary: c) (auto intro!: frame_bindA)

lemma frame_someA:
  "(\<And>x c. x \<in> set xs \<Longrightarrow> snd (f x c) = c) \<Longrightarrow> snd (someA f xs c) = c"
  by (induction xs arbitrary: c) (auto intro!: frame_bindA)

lemma frame_foldA:
  "(\<And>a x c. x \<in> set xs \<Longrightarrow> snd (f a x c) = c) \<Longrightarrow> snd (foldA f xs acc c) = c"
  by (induction xs arbitrary: acc c) (auto intro!: frame_bindA)

lemma frame_pushUntilA:
  "(\<And>x c. x \<in> set xs \<Longrightarrow> snd (f x c) = c) \<Longrightarrow> snd (pushUntilA f stop xs c) = c"
  by (induction xs arbitrary: c) (auto intro!: frame_bindA)

lemma frame_argA:
  "(\<And>x c. x \<in> set xs \<Longrightarrow> snd (f x c) = c) \<Longrightarrow> snd (argA f xs i c) = c"
  by (auto simp: argA_def dest: at_SomeD split: option.splits)

lemma frame_optA:
  "(\<And>v c. x = Some v \<Longrightarrow> snd (f v c) = c) \<Longrightarrow> snd (optA f x c) = c"
  by (auto simp: optA_def intro!: frame_bindA split: option.splits)

lemma frame_reqA:
  "(\<And>v c. x = Some v \<Longrightarrow> snd (f v c) = c) \<Longrightarrow> snd (reqA f x c) = c"
  by (auto simp: reqA_def split: option.splits)

lemmas frame_intros = frame_bindA frame_mapA frame_someA frame_foldA frame_pushUntilA frame_argA
  frame_optA frame_reqA

text \<open>
  Every analyzer except \<^verbatim>\<open>parseCommonTableExpr\<close> returns the context it was given: the one
  write to a context, in \<^verbatim>\<open>parseCommonTableExpr\<close>, only ever reaches a clone.
\<close>

lemma analyzer_frame:
  "snd (parseExpression e c) = c"
  "snd (parseTargetList targetList c) = c"
  "snd (parseFromItem fromItem parsedTables n c) = c"
  "snd (parseFromClause fromItems c) = c"
  "(\<exists>e. fst (parseCommonTableExpr cte c) = Inl e) \<longrightarrow> snd (parseCommonTableExpr cte c) = c"
  "snd (parseWithClause ctes c) = c"
  "snd (parseDeleteStmt relation returningList c) = c"
  "snd (parseInsertStmt relation returningList c) = c"
  "snd (parseSelectStmt stmt c) = c"
  "snd (parseUpdateStmt relation returningList c) = c"
  "snd (parseStmt s c) = c"
proof (induction e c and targetList c and fromItem parsedTables n c and fromItems c and cte c
    and ctes c and relation returningList c and relation returningList c and stmt c
    and relation returningList c and s c rule: analyzer_induct)
  case (25 ctename aliascolnames ctequery ctx)
  then show ?case
    by (cases "parseStmt ctequery ctx") (auto simp: bindA_def split: sum.splits)
qed (auto intro!: frame_intros simp: Let_def
      split: list.splits option.splits A_Indices.splits CaseWhen.splits FuncRule.splits
        NullableRule.splits TypeRule.splits SubLinkType.splits ResTarget.splits StarKind.splits
        sum.splits)

lemma bindA_frame:
  "snd (m c) = c \<Longrightarrow> bindA m f c = (case fst (m c) of Inl e \<Rightarrow> (Inl e, c) | Inr x \<Rightarrow> f x c)"
  by (cases "m c") (auto simp: bindA_def split: sum.splits)

lemma mapA_frame_mapE:
  assumes "\<And>x c. snd (f x c) = c"
  shows "mapA f xs c = (mapE (\<lambda>x. fst (f x c)) xs, c)"
proof (induction xs)
  case Nil
  then show ?case by (simp add: returnA_def)
next
  case (Cons x xs)
  obtain r where fx: "f x c = (r, c)"
    using assms[of x c] by (cases "f x c") auto
  show ?case
    using Cons fx by (cases r) (auto simp: bindA_def returnA_def split: sum.splits)
qed

lemma parseQuery_pure:
  "parseQuery parse prettierFormat query context =
     (case parse query of
        Inl e \<Rightarrow> (Error e, context)
      | Inr rawStmts \<Rightarrow>
          (case mapE (formatStmt prettierFormat context) rawStmts of
             Inl e \<Rightarrow> (Error e, context)
           | Inr results \<Rightarrow> (Results results, context)))"
proof -
  let ?f = "\<lambda>rawStmt. bindA (parseRawStmt rawStmt)
                       (\<lambda>resultTargets context'. (format prettierFormat resultTargets context', context'))"
  have fr: "\<And>x c. snd (?f x c) = c"
    by (rule frame_bindA) (auto simp: parseRawStmt_def analyzer_frame(11) split: RawStmt.splits)
  have eq: "\<And>x. fst (?f x context) = formatStmt prettierFormat context x"
    subgoal for x
      using analyzer_frame(11)
      by (cases x) (auto simp: formatStmt_def parseRawStmt_def bindA_frame split: sum.splits)
    done
  show ?thesis
    by (simp add: parseQuery_def mapA_frame_mapE[of ?f, OF fr] eq split: sum.splits)
qed

lemma person_eval:
  "parseStmt personQuery exampleContext
     = (Inr [ParsedExpression None (Some ''first_name'') False None ''text'' None], exampleContext)"
  by (simp add: personQuery_def personCte_def customerC_def eval_defs)

lemma with_eval:
  "fst (parseWithClause [personCte] exampleContext) =
     Inr ((clone exampleContext) \<lparr> tablesBySchema :=
        [(''public'', [(''customer'', customerTable), (''address'', addressTable), (''film'', filmTable),
           (''person'', \<lparr> tbl_columns = [(''first_name'', \<lparr> col_nullable = False, col_type = ''text'' \<rparr>)], tbl_nullable = False \<rparr>)])] \<rparr>)"
  by (simp add: personQuery_def personCte_def customerC_def eval_defs)

text \<open>
  C9. Analyzing a query writes neither to the catalog nor to the context of the generator:
  \<^verbatim>\<open>generate\<close> leaves the context (and with it \<^verbatim>\<open>tablesBySchema\<close>) as it found it, whether it
  returns results or an error, and so does the analysis of every statement, WITH clause and
  FROM clause. The tables of a WITH clause are installed by \<^verbatim>\<open>parseCommonTableExpr\<close> into the
  catalog of a clone of the context, which is what the WITH clause returns; the scope of a FROM
  clause is a clone of the context with the tables of the clause added to the clone's
  \<^verbatim>\<open>tables\<close>. A later call of \<^verbatim>\<open>generate\<close> therefore behaves as it would on the original context.
\<close>

theorem analysis_leaves_context_unchanged:
  "snd (generate parse prettierFormat context query) = context
   \<and> snd (parseStmt stmt context) = context
   \<and> snd (parseWithClause ctes context) = context
   \<and> snd (parseFromClause fromItems context) = context
   \<and> fst (parseWithClause ctes context) =
        (case mapA (\<lambda>cte. parseCommonTableExpr cte) ctes (clone context) of
           (Inl e, written) \<Rightarrow> Inl e
         | (Inr installed, written) \<Rightarrow> Inr written)
   \<and> (\<forall>contextWithFrom. fst (parseFromClause fromItems context) = Inr contextWithFrom \<longrightarrow>
         (\<exists>parsedTables. contextWithFrom = (clone context) \<lparr> tables := scopeTables parsedTables (tables (clone context)) \<rparr>))
   \<and> generate parse prettierFormat (snd (generate parse prettierFormat context query)) query'
       = generate parse prettierFormat context query'"
proof -
  have g: "snd (generate parse prettierFormat context query) = context"
    by (simp add: generate_def parseQuery_pure split: sum.splits)
  have w: "fst (parseWithClause ctes context) =
        (case mapA (\<lambda>cte. parseCommonTableExpr cte) ctes (clone context) of
           (Inl e, written) \<Rightarrow> Inl e
         | (Inr installed, written) \<Rightarrow> Inr written)"
    by (simp add: analysis_defs split: prod.splits sum.splits)
  have f: "\<forall>contextWithFrom. fst (parseFromClause fromItems context) = Inr contextWithFrom \<longrightarrow>
         (\<exists>parsedTables. contextWithFrom = (clone context) \<lparr> tables := scopeTables parsedTables (tables (clone context)) \<rparr>)"
  proof (intro allI impI)
    fix contextWithFrom
    assume h: "fst (parseFromClause fromItems context) = Inr contextWithFrom"
    let ?m = "foldA (\<lambda>parsedTables fromItem context'.
              bindA (parseFromItem fromItem [] False)
                (\<lambda>pushed. returnA (parsedTables @ pushed)) context') fromItems []"
    have fr: "snd (?m context) = context"
      by (rule frame_foldA) (auto intro!: frame_bindA simp: analyzer_frame(3))
    from h obtain parsedTables where "contextWithFrom = fromContext parsedTables context"
      using fr by (cases "?m context") (auto simp: bindA_def returnA_def split: sum.splits)
    then show "\<exists>parsedTables. contextWithFrom = (clone context) \<lparr> tables := scopeTables parsedTables (tables (clone context)) \<rparr>"
      by (auto simp: fromContext_def Let_def)
  qed
  show ?thesis
    using g w f analyzer_frame(11)[of stmt "context"] analyzer_frame(6)[of ctes "context"]
      analyzer_frame(4)[of fromItems "context"]
    by simp
qed

text \<open>
  The FROM clause \<^verbatim>\<open>FROM customer c\<close> and the WITH clause that defines \<^verbatim>\<open>person\<close>: the context
  returned by the WITH clause has a catalog with one table more, the context it was given has not.
\<close>

theorem analysis_leaves_context_unchanged_witness:
  "fst (parseFromClause [customerC] exampleContext)
     = Inr ((clone exampleContext) \<lparr> tables := [(''c'', Some customerTable)] \<rparr>)
   \<and> (\<exists>parsedTables. (clone exampleContext) \<lparr> tables := [(''c'', Some customerTable)] \<rparr>
        = (clone exampleContext) \<lparr> tables := scopeTables parsedTables (tables (clone exampleContext)) \<rparr>)
   \<and> (\<exists>written. fst (parseWithClause [personCte] exampleContext) = Inr written
         \<and> map_of (tablesBySchema written) ''public'' \<noteq> map_of (tablesBySchema exampleContext) ''public'')
   \<and> parseStmt personQuery exampleContext
       = (Inr [ParsedExpression None (Some ''first_name'') False None ''text'' None], exampleContext)"
proof -
  have a: "fst (parseFromClause [customerC] exampleContext)
     = Inr ((clone exampleContext) \<lparr> tables := [(''c'', Some customerTable)] \<rparr>)"
    by (simp add: customerC_def eval_defs)
  note t = analysis_leaves_context_unchanged[of exampleParse "\<lambda>source. Inr source" exampleContext
      "''first''" personQuery "[personCte]" "[customerC]" "''second''"]
  from t a have b: "\<exists>parsedTables. (clone exampleContext) \<lparr> tables := [(''c'', Some customerTable)] \<rparr>
        = (clone exampleContext) \<lparr> tables := scopeTables parsedTables (tables (clone exampleContext)) \<rparr>"
    by blast
  have c: "\<exists>written. fst (parseWithClause [personCte] exampleContext) = Inr written
         \<and> map_of (tablesBySchema written) ''public'' \<noteq> map_of (tablesBySchema exampleContext) ''public''"
    unfolding with_eval by (simp add: example_defs clone_def)
  show ?thesis
    using a b c person_eval by simp
qed

section \<open>COALESCE\<close>

lemma pushUntilA_result:
  assumes "\<And>x c. snd (f x c) = c" and "pushUntilA f stop xs c = (Inr ys, c')"
  shows "c' = c \<and> length ys \<le> length xs
    \<and> (\<forall>i<length ys. f (xs ! i) c = (Inr (ys ! i), c))
    \<and> (\<forall>i. Suc i < length ys \<longrightarrow> \<not> stop (ys ! i))
    \<and> (length ys < length xs \<longrightarrow> ys \<noteq> [] \<and> stop (last ys))
    \<and> (xs \<noteq> [] \<longrightarrow> ys \<noteq> [])"
  using assms(2)
proof (induction xs arbitrary: ys)
  case Nil
  then show ?case by (simp add: returnA_def)
next
  case (Cons x xs)
  obtain r where fx: "f x c = (r, c)"
    using assms(1)[of x c] by (cases "f x c") auto
  show ?case
  proof (cases r)
    case (Inl e)
    with Cons.prems fx show ?thesis by (simp add: bindA_def)
  next
    case (Inr y)
    show ?thesis
    proof (cases "stop y")
      case True
      with Cons.prems fx Inr show ?thesis by (auto simp: bindA_def returnA_def)
    next
      case False
      with Cons.prems fx Inr obtain zs where
        rec: "pushUntilA f stop xs c = (Inr zs, c')" and ys: "ys = y # zs"
        by (auto simp: bindA_def returnA_def split: prod.splits sum.splits)
      from Cons.IH[OF rec] have ih: "c' = c" "length zs \<le> length xs"
        "\<forall>i<length zs. f (xs ! i) c = (Inr (zs ! i), c)"
        "\<forall>i. Suc i < length zs \<longrightarrow> \<not> stop (zs ! i)"
        "length zs < length xs \<longrightarrow> zs \<noteq> [] \<and> stop (last zs)"
        "xs \<noteq> [] \<longrightarrow> zs \<noteq> []"
        by auto
      have a: "\<forall>i<length ys. f ((x # xs) ! i) c = (Inr (ys ! i), c)"
        using ih(3) fx Inr ys by (auto simp: nth_Cons split: nat.splits)
      have b: "\<forall>i. Suc i < length ys \<longrightarrow> \<not> stop (ys ! i)"
        using ih(4) False ys by (auto simp: nth_Cons split: nat.splits)
      show ?thesis using ih a b ys by auto
    qed
  qed
qed

lemma pushUntilA_prefix:
  assumes "\<And>x c. snd (f x c) = c" and "pushUntilA f stop xs c = (Inr ys, c')"
  shows "pushUntilA f stop (take (length ys) xs) c = (Inr ys, c')
    \<and> (ys \<noteq> [] \<and> stop (last ys) \<longrightarrow>
         (\<forall>rest. pushUntilA f stop (take (length ys) xs @ rest) c = (Inr ys, c')))"
  using assms(2)
proof (induction xs arbitrary: ys)
  case Nil
  then show ?case by (auto simp: returnA_def)
next
  case (Cons x xs)
  obtain r where fx: "f x c = (r, c)"
    using assms(1)[of x c] by (cases "f x c") auto
  show ?case
  proof (cases r)
    case (Inl e)
    with Cons.prems fx show ?thesis by (simp add: bindA_def)
  next
    case (Inr y)
    show ?thesis
    proof (cases "stop y")
      case True
      with Cons.prems fx Inr show ?thesis by (auto simp: bindA_def returnA_def)
    next
      case False
      with Cons.prems fx Inr obtain zs where
        rec: "pushUntilA f stop xs c = (Inr zs, c')" and ys: "ys = y # zs"
        by (auto simp: bindA_def returnA_def split: prod.splits sum.splits)
      from Cons.IH[OF rec] show ?thesis
        using fx Inr False ys by (auto simp: bindA_def returnA_def)
    qed
  qed
qed

text \<open>
  C3. Whenever the analysis of \<^verbatim>\<open>COALESCE(args)\<close> succeeds, the collected branches are the
  analyses of a non-empty prefix of the arguments, in order; every branch but the last is
  nullable, and the prefix is cut right after the first non-nullable analysis (it is shorter
  than the argument list only if its last branch is non-nullable). Once the last branch is
  non-nullable, whatever follows the prefix is irrelevant: replacing the remaining arguments by
  any others gives the same result, so they contribute nothing to the branches, from which
  alone the rendered union is computed. The result type is the type of the first branch, and
  the result is nullable exactly if every collected branch is.
\<close>

theorem coalesce_stops_at_first_non_nullable:
  assumes "parseExpression (CoalesceExpr args) c = (Inr r, c')"
  shows "\<exists>branches. types r = Some branches \<and> branches \<noteq> [] \<and> length branches \<le> length args
     \<and> (\<forall>i<length branches. fst (parseExpression (args ! i) c) = Inr (branches ! i))
     \<and> (\<forall>i. Suc i < length branches \<longrightarrow> nullable (branches ! i))
     \<and> (length branches < length args \<longrightarrow> \<not> nullable (last branches))
     \<and> (\<not> nullable (last branches) \<longrightarrow>
          (\<forall>rest. parseExpression (CoalesceExpr (take (length branches) args @ rest)) c = (Inr r, c')))
     \<and> type r = type (hd branches)
     \<and> (nullable r \<longleftrightarrow> (\<forall>b\<in>set branches. nullable b))
     \<and> (\<forall>context. tsUnionMembers r context =
           (case mapE (tsType context) branches of
              Inl e \<Rightarrow> Inl e
            | Inr ts \<Rightarrow> Inr (unique (if \<forall>b\<in>set branches. nullable b then ts @ [''null''] else ts))))"
proof -
  let ?f = "\<lambda>arg. parseExpression arg"
  let ?stop = "\<lambda>expression. \<not> nullable expression"
  have fr: "\<And>x c. snd (?f x c) = c"
    by (rule analyzer_frame(1))
  have fr': "snd (pushUntilA ?f ?stop args c) = c"
    by (rule frame_pushUntilA) (rule analyzer_frame(1))
  from assms obtain bs first rest where
    push: "pushUntilA ?f ?stop args c = (Inr bs, c)" and bs: "bs = first # rest"
    and r: "r = ParsedExpression None None (list_all nullable bs) None (type first) (Some bs)"
    and c': "c' = c"
    using fr'
    by (cases "pushUntilA ?f ?stop args c")
       (auto simp: bindA_def returnA_def throwA_def split: sum.splits list.splits)
  note res = pushUntilA_result[OF fr push]
  note pre = pushUntilA_prefix[OF fr push]
  have trunc: "\<not> nullable (last bs) \<longrightarrow>
      (\<forall>rest. parseExpression (CoalesceExpr (take (length bs) args @ rest)) c = (Inr r, c'))"
    using pre bs r c' by (auto simp: bindA_def returnA_def)
  have idx: "\<forall>i<length bs. fst (parseExpression (args ! i) c) = Inr (bs ! i)"
    using res by auto
  have fmt: "\<forall>context. tsUnionMembers r context =
           (case mapE (tsType context) bs of
              Inl e \<Rightarrow> Inl e
            | Inr ts \<Rightarrow> Inr (unique (if \<forall>b\<in>set bs. nullable b then ts @ [''null''] else ts)))"
    using r by (auto simp: tsUnionMembers_def list_all_iff split: sum.splits)
  show ?thesis
    apply (rule exI[of _ bs])
    using res trunc idx fmt bs r by (auto simp: list_all_iff)
qed

text \<open>
  \<^verbatim>\<open>coalesce(postal_code, 'x', 'y')\<close> over \<^verbatim>\<open>address\<close>: the nullable column and the first constant
  are collected, and the arguments after \<^verbatim>\<open>'x'\<close> can be replaced by anything.
\<close>

theorem coalesce_stops_at_first_non_nullable_witness:
  "parseExpression
     (CoalesceExpr [ColumnRef [FString ''postal_code''], A_Const (String ''x''), A_Const (String ''y'')])
     addressScope
   = (Inr (ParsedExpression None None False None ''text''
        (Some [ParsedExpression None (Some ''postal_code'') True None ''text'' None,
               ParsedExpression (Some (quoted ''x'')) None False None ''text'' None])),
      addressScope)
   \<and> (\<forall>rest. parseExpression
         (CoalesceExpr ([ColumnRef [FString ''postal_code''], A_Const (String ''x'')] @ rest))
         addressScope
        = (Inr (ParsedExpression None None False None ''text''
             (Some [ParsedExpression None (Some ''postal_code'') True None ''text'' None,
                    ParsedExpression (Some (quoted ''x'')) None False None ''text'' None])),
           addressScope))"
proof -
  have h: "parseExpression
     (CoalesceExpr [ColumnRef [FString ''postal_code''], A_Const (String ''x''), A_Const (String ''y'')])
     addressScope
   = (Inr (ParsedExpression None None False None ''text''
        (Some [ParsedExpression None (Some ''postal_code'') True None ''text'' None,
               ParsedExpression (Some (quoted ''x'')) None False None ''text'' None])),
      addressScope)"
    by (simp add: analysis_defs parseColumnRef_def parseAConst_def example_defs columnWithName_def)
  from coalesce_stops_at_first_non_nullable[OF h] show ?thesis
    using h by simp
qed

section \<open>CASE\<close>

lemma set_unique_aux: "set (fold (\<lambda>x acc. if x \<in> set acc then acc else acc @ [x]) xs acc0) = set acc0 \<union> set xs"
  by (induction xs arbitrary: acc0) auto

lemma set_unique [simp]: "set (unique xs) = set xs"
  by (simp add: unique_def set_unique_aux)

lemma mapA_result:
  assumes "\<And>x c. x \<in> set xs \<Longrightarrow> snd (f x c) = c" and "mapA f xs c = (Inr ys, c')"
  shows "c' = c \<and> length ys = length xs \<and> (\<forall>i<length xs. f (xs ! i) c = (Inr (ys ! i), c))"
  using assms
proof (induction xs arbitrary: ys)
  case Nil
  then show ?case by (simp add: returnA_def)
next
  case (Cons x xs)
  obtain r where fx: "f x c = (r, c)"
    using Cons.prems(1)[of x c] by (cases "f x c") auto
  show ?case
  proof (cases r)
    case (Inl e)
    with Cons.prems fx show ?thesis by (simp add: bindA_def)
  next
    case (Inr y)
    with Cons.prems fx obtain zs where
      rec: "mapA f xs c = (Inr zs, c')" and ys: "ys = y # zs"
      by (auto simp: bindA_def returnA_def split: prod.splits sum.splits)
    have "c' = c \<and> length zs = length xs \<and> (\<forall>i<length xs. f (xs ! i) c = (Inr (zs ! i), c))"
      using Cons.IH[OF _ rec] Cons.prems(1) by auto
    then show ?thesis
      using fx Inr ys by (auto simp: nth_Cons split: nat.splits)
  qed
qed

lemma mapE_tsType_total:
  "mapType context \<noteq> None \<Longrightarrow> \<exists>ts. mapE (tsType context) bs = Inr ts"
  by (induction bs) (auto simp: tsType_def split: option.splits)

text \<open>
  C4. Whenever the analysis of a CASE expression succeeds, there is one analyzed result per
  WHEN, in order; the branch list is these results, followed by the analyzed ELSE result when
  there is one; the result type is the type of the first WHEN result; the result is nullable
  exactly if ELSE is missing or some branch is nullable. Without ELSE the result is nullable,
  and in every context that can map types its rendered union has the member \<^verbatim>\<open>null\<close>.
\<close>

theorem case_branches_and_nullability:
  assumes "parseExpression (CaseExpr args defresult) c = (Inr r, c')"
  shows "\<exists>results branches.
       length results = length args \<and> results \<noteq> []
     \<and> (\<forall>i<length args. (case args ! i of CaseWhen expr result \<Rightarrow> fst (parseExpression result c)) = Inr (results ! i))
     \<and> (case defresult of
           None \<Rightarrow> branches = results
         | Some d \<Rightarrow> \<exists>defaultResult. fst (parseExpression d c) = Inr defaultResult
                      \<and> branches = results @ [defaultResult])
     \<and> type r = type (hd results)
     \<and> types r = Some branches
     \<and> (nullable r \<longleftrightarrow> defresult = None \<or> (\<exists>b\<in>set branches. nullable b))
     \<and> (defresult = None \<longrightarrow> nullable r
          \<and> (\<forall>context. mapType context \<noteq> None \<longrightarrow>
                (\<exists>members. tsUnionMembers r context = Inr members \<and> ''null'' \<in> set members)))"
proof -
  let ?f = "\<lambda>arg. case arg of CaseWhen expr result \<Rightarrow> parseExpression result"
  have fr: "\<And>x c. snd (?f x c) = c"
    by (auto simp: analyzer_frame(1) split: CaseWhen.splits)
  have fr1: "snd (mapA ?f args c) = c"
    by (rule frame_mapA) (rule fr)
  have fr2: "snd (optA (\<lambda>e. parseExpression e) defresult c) = c"
    by (rule frame_optA) (rule analyzer_frame(1))
  from assms obtain results where m: "mapA ?f args c = (Inr results, c)"
    using fr1 by (cases "mapA ?f args c") (auto simp: bindA_def split: sum.splits)
  from assms m obtain defaultResult where
    d: "optA (\<lambda>e. parseExpression e) defresult c = (Inr defaultResult, c)"
    using fr2 by (cases "optA (\<lambda>e. parseExpression e) defresult c") (auto simp: bindA_def split: sum.splits)
  define branches where "branches = (case defaultResult of Some d \<Rightarrow> results @ [d] | None \<Rightarrow> results)"
  from assms m d obtain first rest where res: "results = first # rest"
    and r: "r = ParsedExpression None None (defaultResult = None \<or> list_ex nullable branches) None (type first) (Some branches)"
    by (auto simp: bindA_def returnA_def throwA_def Let_def branches_def split: list.splits)
  note mr = mapA_result[OF fr m]
  have idx: "\<forall>i<length args. (case args ! i of CaseWhen expr result \<Rightarrow> fst (parseExpression result c)) = Inr (results ! i)"
  proof (intro allI impI)
    fix i assume "i < length args"
    with mr have "?f (args ! i) c = (Inr (results ! i), c)" by auto
    then show "(case args ! i of CaseWhen expr result \<Rightarrow> fst (parseExpression result c)) = Inr (results ! i)"
      by (cases "args ! i") auto
  qed
  have dd: "(case defresult of
           None \<Rightarrow> branches = results
         | Some d \<Rightarrow> \<exists>defaultResult. fst (parseExpression d c) = Inr defaultResult
                      \<and> branches = results @ [defaultResult])"
       and dn: "defaultResult = None \<longleftrightarrow> defresult = None"
    using d by (auto simp: optA_def bindA_def returnA_def branches_def split: option.splits prod.splits sum.splits)
  have render: "defresult = None \<longrightarrow> (\<forall>context. mapType context \<noteq> None \<longrightarrow>
                (\<exists>members. tsUnionMembers r context = Inr members \<and> ''null'' \<in> set members))"
  proof (intro impI allI)
    fix cx :: Context assume "defresult = None" and "mapType cx \<noteq> None"
    then obtain ts where "mapE (tsType cx) branches = Inr ts"
      using mapE_tsType_total by blast
    then show "\<exists>members. tsUnionMembers r cx = Inr members \<and> ''null'' \<in> set members"
      using r dn \<open>defresult = None\<close> by (simp add: tsUnionMembers_def)
  qed
  show ?thesis
    apply (rule exI[of _ results], rule exI[of _ branches])
    using mr idx dd dn render res r by (auto simp: list_ex_iff)
qed

text \<open>\<^verbatim>\<open>CASE WHEN postal_code THEN 1 WHEN address THEN 2 END\<close> renders as \<^verbatim>\<open>1 | 2 | null\<close>.\<close>

theorem case_branches_and_nullability_witness:
  "parseExpression
     (CaseExpr [CaseWhen (ColumnRef [FString ''postal_code'']) (A_Const (Integer 1)),
                CaseWhen (ColumnRef [FString ''address'']) (A_Const (Integer 2))] None)
     addressScope
   = (Inr (ParsedExpression None None True None ''int4''
        (Some [ParsedExpression (Some ''1'') None False None ''int4'' None,
               ParsedExpression (Some ''2'') None False None ''int4'' None])),
      addressScope)
   \<and> tsUnionMembers (ParsedExpression None None True None ''int4''
        (Some [ParsedExpression (Some ''1'') None False None ''int4'' None,
               ParsedExpression (Some ''2'') None False None ''int4'' None])) exampleContext
     = Inr [''1'', ''2'', ''null'']
   \<and> ''null'' \<in> set [''1'', ''2'', ''null'']"
proof -
  have h: "parseExpression
     (CaseExpr [CaseWhen (ColumnRef [FString ''postal_code'']) (A_Const (Integer 1)),
                CaseWhen (ColumnRef [FString ''address'']) (A_Const (Integer 2))] None)
     addressScope
   = (Inr (ParsedExpression None None True None ''int4''
        (Some [ParsedExpression (Some ''1'') None False None ''int4'' None,
               ParsedExpression (Some ''2'') None False None ''int4'' None])),
      addressScope)"
    by (simp add: analysis_defs parseAConst_def toString10_def digits.simps digit_def)
  have m: "mapType exampleContext \<noteq> None"
    by (simp add: example_defs)
  have e: "tsUnionMembers (ParsedExpression None None True None ''int4''
        (Some [ParsedExpression (Some ''1'') None False None ''int4'' None,
               ParsedExpression (Some ''2'') None False None ''int4'' None])) exampleContext
     = Inr [''1'', ''2'', ''null'']"
    by (simp add: tsUnionMembers_def tsType_def unique_def)
  from case_branches_and_nullability[OF h] m e show ?thesis
    using h by auto
qed

section \<open>Array subscripts\<close>

lemma isJson_not_isArray: "isJson t \<Longrightarrow> \<not> isArray t"
  by (auto simp: isJson_def isArray_def)

lemma optA_frame_result:
  "optA (\<lambda>e. parseExpression e) x c =
     (case x of None \<Rightarrow> (Inr None, c)
      | Some e \<Rightarrow> (case fst (parseExpression e c) of Inl err \<Rightarrow> (Inl err, c) | Inr v \<Rightarrow> (Inr (Some v), c)))"
  using analyzer_frame(1)
  by (auto simp: optA_def returnA_def bindA_frame split: option.splits sum.splits)

text \<open>
  C6. Let the subscripted argument be analyzed to \<open>a\<close>. If \<open>a\<close> has an array type: a single
  slice subscript, when its analysis succeeds, keeps the array type and is nullable exactly if
  \<open>a\<close>, the lower bound or the upper bound is (and it does succeed when the bounds that are
  present can be analyzed); a single element subscript yields the element type and is
  nullable, whatever \<open>a\<close> and the index are; more than one subscript is rejected as unsupported.
  If \<open>a\<close> has a json type the result is \<^verbatim>\<open>any\<close>, nullable.
\<close>

theorem array_subscript:
  assumes "parseExpression arg c = (Inr a, c')"
  shows
    "(isArray (type a) \<longrightarrow>
        (\<forall>r. fst (parseExpression (A_Indirection arg [A_Indices True lidx uidx]) c) = Inr r \<longrightarrow>
           type r = type a
         \<and> (nullable r \<longleftrightarrow>
              nullable a
            \<or> (\<exists>e x. lidx = Some e \<and> fst (parseExpression e c) = Inr x \<and> nullable x)
            \<or> (\<exists>e x. uidx = Some e \<and> fst (parseExpression e c) = Inr x \<and> nullable x)))
      \<and> ((\<forall>e. lidx = Some e \<longrightarrow> (\<exists>x. fst (parseExpression e c) = Inr x))
         \<and> (\<forall>e. uidx = Some e \<longrightarrow> (\<exists>x. fst (parseExpression e c) = Inr x))
         \<longrightarrow> (\<exists>r. fst (parseExpression (A_Indirection arg [A_Indices True lidx uidx]) c) = Inr r))
      \<and> fst (parseExpression (A_Indirection arg [A_Indices False lidx uidx]) c)
          = Inr (plain True (getElementType (type a)))
      \<and> (length indirection > 1 \<longrightarrow>
           (\<exists>what. fst (parseExpression (A_Indirection arg indirection) c) = Inl (Unsupported what))))
   \<and> (isJson (type a) \<longrightarrow>
        fst (parseExpression (A_Indirection arg indirection) c) = Inr (plain True ''any''))"
proof -
  have c': "c' = c"
    using assms analyzer_frame(1)[of arg c] by simp
  have slice: "isArray (type a) \<Longrightarrow>
      fst (parseExpression (A_Indirection arg [A_Indices True lidx uidx]) c) =
        (if nullable a then Inr (plain True (type a))
         else (case lidx of
                 None \<Rightarrow> (case uidx of
                            None \<Rightarrow> Inr (plain False (type a))
                          | Some e \<Rightarrow> (case fst (parseExpression e c) of
                                         Inl err \<Rightarrow> Inl err
                                       | Inr x \<Rightarrow> Inr (plain (nullable x) (type a))))
               | Some le \<Rightarrow> (case fst (parseExpression le c) of
                     Inl err \<Rightarrow> Inl err
                   | Inr lx \<Rightarrow> if nullable lx then Inr (plain True (type a))
                       else (case uidx of
                            None \<Rightarrow> Inr (plain False (type a))
                          | Some e \<Rightarrow> (case fst (parseExpression e c) of
                                         Inl err \<Rightarrow> Inl err
                                       | Inr x \<Rightarrow> Inr (plain (nullable x) (type a)))))))"
    using assms c' by (simp add: optA_frame_result bindA_def returnA_def split: option.splits sum.splits)
  have elem: "isArray (type a) \<Longrightarrow>
      fst (parseExpression (A_Indirection arg [A_Indices False lidx uidx]) c)
        = Inr (plain True (getElementType (type a)))"
    using assms c' by (simp add: bindA_def returnA_def)
  have multi: "isArray (type a) \<Longrightarrow> length indirection > 1 \<Longrightarrow>
      fst (parseExpression (A_Indirection arg indirection) c) = Inl (Unsupported ''multidimensional arrays'')"
    using assms c' by (simp add: bindA_def throwA_def)
  have json: "isJson (type a) \<Longrightarrow>
      fst (parseExpression (A_Indirection arg indirection) c) = Inr (plain True ''any'')"
    using assms c' isJson_not_isArray[of "type a"] by (simp add: bindA_def returnA_def)
  have slice1: "isArray (type a) \<Longrightarrow>
        (\<forall>r. fst (parseExpression (A_Indirection arg [A_Indices True lidx uidx]) c) = Inr r \<longrightarrow>
           type r = type a
         \<and> (nullable r \<longleftrightarrow>
              nullable a
            \<or> (\<exists>e x. lidx = Some e \<and> fst (parseExpression e c) = Inr x \<and> nullable x)
            \<or> (\<exists>e x. uidx = Some e \<and> fst (parseExpression e c) = Inr x \<and> nullable x)))"
    by (auto simp: slice plain_def simp del: parseExpression.simps(4) split: option.splits sum.splits if_splits)
  have slice2: "isArray (type a) \<Longrightarrow>
         (\<forall>e. lidx = Some e \<longrightarrow> (\<exists>x. fst (parseExpression e c) = Inr x))
         \<and> (\<forall>e. uidx = Some e \<longrightarrow> (\<exists>x. fst (parseExpression e c) = Inr x))
         \<longrightarrow> (\<exists>r. fst (parseExpression (A_Indirection arg [A_Indices True lidx uidx]) c) = Inr r)"
    by (auto simp: slice simp del: parseExpression.simps(4) split: option.splits sum.splits if_splits)
  show ?thesis
    apply (intro conjI impI)
    subgoal using slice1 by simp
    subgoal using slice2 by simp
    subgoal using elem by simp
    subgoal using multi by simp
    subgoal using json by simp
    done
qed

text \<open>\<^verbatim>\<open>special_features[1]\<close>, \<^verbatim>\<open>special_features[1:2]\<close> and \<^verbatim>\<open>special_features[1][2]\<close> over \<^verbatim>\<open>film\<close>.\<close>

theorem array_subscript_witness:
  "parseExpression (ColumnRef [FString ''special_features'']) filmScope
     = (Inr (ParsedExpression None (Some ''special_features'') True None ''text[]'' None), filmScope)
   \<and> isArray ''text[]''
   \<and> fst (parseExpression
          (A_Indirection (ColumnRef [FString ''special_features''])
             [A_Indices False (Some (A_Const (Integer 1))) None]) filmScope)
       = Inr (plain True ''text'')
   \<and> (\<exists>r. fst (parseExpression
          (A_Indirection (ColumnRef [FString ''special_features''])
             [A_Indices True (Some (A_Const (Integer 1))) (Some (A_Const (Integer 2)))]) filmScope)
       = Inr r \<and> type r = ''text[]'' \<and> nullable r)
   \<and> (\<exists>what. fst (parseExpression
          (A_Indirection (ColumnRef [FString ''special_features''])
             [A_Indices False (Some (A_Const (Integer 1))) None,
              A_Indices False (Some (A_Const (Integer 2))) None]) filmScope)
       = Inl (Unsupported what))"
proof -
  have h: "parseExpression (ColumnRef [FString ''special_features'']) filmScope
     = (Inr (ParsedExpression None (Some ''special_features'') True None ''text[]'' None), filmScope)"
    by (simp add: analysis_defs parseColumnRef_def example_defs columnWithName_def)
  have a: "isArray ''text[]''"
    by (simp add: isArray_def)
  have e: "getElementType ''text[]'' = ''text''"
    by (simp add: getElementType_def isArray_def)
  have b: "\<forall>e. Some (A_Const (Integer 1)) = Some e \<longrightarrow> (\<exists>x. fst (parseExpression e filmScope) = Inr x)"
      "\<forall>e. Some (A_Const (Integer 2)) = Some e \<longrightarrow> (\<exists>x. fst (parseExpression e filmScope) = Inr x)"
    by (simp_all add: analysis_defs parseAConst_def)
  from array_subscript[OF h, of "Some (A_Const (Integer 1))" "Some (A_Const (Integer 2))"
      "[A_Indices False (Some (A_Const (Integer 1))) None, A_Indices False (Some (A_Const (Integer 2))) None]"]
  have 1: "\<forall>r. fst (parseExpression
          (A_Indirection (ColumnRef [FString ''special_features''])
             [A_Indices True (Some (A_Const (Integer 1))) (Some (A_Const (Integer 2)))]) filmScope) = Inr r
          \<longrightarrow> type r = ''text[]'' \<and> nullable r"
    and 2: "\<exists>r. fst (parseExpression
          (A_Indirection (ColumnRef [FString ''special_features''])
             [A_Indices True (Some (A_Const (Integer 1))) (Some (A_Const (Integer 2)))]) filmScope) = Inr r"
    and 3: "\<exists>what. fst (parseExpression
          (A_Indirection (ColumnRef [FString ''special_features''])
             [A_Indices False (Some (A_Const (Integer 1))) None,
              A_Indices False (Some (A_Const (Integer 2))) None]) filmScope)
       = Inl (Unsupported what)"
    using a b by auto
  from array_subscript[OF h, of "Some (A_Const (Integer 1))" None "[]"]
  have 4: "fst (parseExpression
          (A_Indirection (ColumnRef [FString ''special_features''])
             [A_Indices False (Some (A_Const (Integer 1))) None]) filmScope)
       = Inr (plain True ''text'')"
    using a e by simp
  show ?thesis
    using h a 1 2 3 4 by blast
qed

section \<open>Literals\<close>

lemma unique_single [simp]: "unique [x] = [x]"
  by (simp add: unique_def)

lemma quoted_neq [simp]: "quoted s \<noteq> []" "(quoted s = quoted s') = (s = s')"
  by (auto simp: quoted_def)




section \<open>Statements without result columns\<close>

lemma parseTargetList_Nil [simp]: "parseTargetList [] c = (Inr [], c)"
  by (simp add: analysis_defs)

lemma mapA_single_frame:
  "snd (m c) = c \<Longrightarrow> mapA (\<lambda>x. m) [a] c = (case fst (m c) of Inl e \<Rightarrow> (Inl e, c) | Inr y \<Rightarrow> (Inr [y], c))"
  by (cases "m c") (auto simp: analysis_defs split: sum.splits)

text \<open>
  C10. The formatter turns an empty list of result targets into the sentinel
  \<^verbatim>\<open>{[K in any]: never}\<close>: that is the source handed to the pretty printer, so a query whose one
  statement is analyzed to an empty list yields the pretty-printed sentinel. DELETE, INSERT
  and UPDATE without RETURNING are analyzed to the empty list whenever the schema of their
  relation is in the catalog.
\<close>

theorem empty_result_sentinel:
  "formatSource [] context = Inr ''{[K in any]: never}''
   \<and> (parse query = Inr [RawStmt stmt] \<and> fst (parseStmt stmt context) = Inr [] \<longrightarrow>
        fst (parseQuery parse prettierFormat query context) =
          (case prettierFormat ''type T = {[K in any]: never}'' of
             Inl e \<Rightarrow> Error e
           | Inr formatted \<Rightarrow> Results [trim (removeTypeT formatted)]))
   \<and> (map_of (tablesBySchema context) (relationSchema relation context) \<noteq> None \<longrightarrow>
        fst (parseStmt (DeleteStmt relation None) context) = Inr []
      \<and> fst (parseStmt (InsertStmt relation None) context) = Inr []
      \<and> fst (parseStmt (UpdateStmt relation None) context) = Inr [])"
proof -
  have a: "formatSource [] context = Inr ''{[K in any]: never}''"
    by (simp add: formatSource_def)
  have b: "parse query = Inr [RawStmt stmt] \<and> fst (parseStmt stmt context) = Inr [] \<longrightarrow>
        fst (parseQuery parse prettierFormat query context) =
          (case prettierFormat ''type T = {[K in any]: never}'' of
             Inl e \<Rightarrow> Error e
           | Inr formatted \<Rightarrow> Results [trim (removeTypeT formatted)])"
  proof
    assume h: "parse query = Inr [RawStmt stmt] \<and> fst (parseStmt stmt context) = Inr []"
    then have "parseStmt stmt context = (Inr [], context)"
      using analyzer_frame(11)[of stmt "context"] by (cases "parseStmt stmt context") auto
    with h show "fst (parseQuery parse prettierFormat query context) =
          (case prettierFormat ''type T = {[K in any]: never}'' of
             Inl e \<Rightarrow> Error e
           | Inr formatted \<Rightarrow> Results [trim (removeTypeT formatted)])"
      by (simp add: parseQuery_def parseRawStmt_def analysis_defs format_def a split: sum.splits)
  qed
  have c: "map_of (tablesBySchema context) (relationSchema relation context) \<noteq> None \<longrightarrow>
        fst (parseStmt (DeleteStmt relation None) context) = Inr []
      \<and> fst (parseStmt (InsertStmt relation None) context) = Inr []
      \<and> fst (parseStmt (UpdateStmt relation None) context) = Inr []"
    by (auto simp: relationSchema_def relationContext_def analysis_defs orEmpty_def Let_def
        split: option.splits)
  show ?thesis using a b c by blast
qed

text \<open>\<^verbatim>\<open>DELETE FROM film\<close>, with a pretty printer that returns its input.\<close>

theorem empty_result_sentinel_witness:
  "map_of (tablesBySchema exampleContext)
      (relationSchema \<lparr> rv_alias = None, relname = ''film'', schemaname = None \<rparr> exampleContext) \<noteq> None
   \<and> fst (parseStmt (DeleteStmt \<lparr> rv_alias = None, relname = ''film'', schemaname = None \<rparr> None) exampleContext) = Inr []
   \<and> fst (parseQuery (\<lambda>q. Inr [RawStmt (DeleteStmt \<lparr> rv_alias = None, relname = ''film'', schemaname = None \<rparr> None)])
             (\<lambda>source. Inr source) ''DELETE FROM film'' exampleContext)
       = Results [''{[K in any]: never}'']"
proof -
  let ?rel = "\<lparr> rv_alias = None, relname = ''film'', schemaname = None \<rparr>"
  let ?parse = "\<lambda>q::string. (Inr [RawStmt (DeleteStmt ?rel None)] :: error + RawStmt list)"
  have s: "map_of (tablesBySchema exampleContext) (relationSchema ?rel exampleContext) \<noteq> None"
    by (simp add: relationSchema_def example_defs)
  have t: "trim (removeTypeT ''type T = {[K in any]: never}'') = ''{[K in any]: never}''"
    by (simp add: trim_def removeTypeT_def isSpace_def)
  note w = empty_result_sentinel[of exampleContext ?parse "''DELETE FROM film''" "DeleteStmt ?rel None"
      "\<lambda>source. Inr source" ?rel]
  from w s have d: "fst (parseStmt (DeleteStmt ?rel None) exampleContext) = Inr []"
    by blast
  from w d have "fst (parseQuery ?parse (\<lambda>source. Inr source) ''DELETE FROM film'' exampleContext)
       = Results [trim (removeTypeT ''type T = {[K in any]: never}'')]"
    by simp
  with s d t show ?thesis by simp
qed

section \<open>Unqualified column references\<close>


lemma map_of_distinct_entry:
  "distinct (map fst xs) \<Longrightarrow> (k, v) \<in> set xs \<Longrightarrow> map_of xs k = Some v"
  by simp




section \<open>The driver: results or an error\<close>

lemma mapE_Inl_iff: "(\<exists>e. mapE f xs = Inl e) \<longleftrightarrow> (\<exists>x\<in>set xs. \<exists>e. f x = Inl e)"
  by (induction xs) (auto split: sum.splits)

lemma unnamed_eval: "fst (parseStmt unnamedQuery exampleContext) = Inl MissingAlias"
  by (simp add: unnamedQuery_def eval_defs)

lemma first_name_format:
  "format (\<lambda>source. Inr source) [ParsedExpression None (Some ''first_name'') False None ''text'' None] exampleContext
     = Inr (''{ '' @ quoted ''first_name'' @ '': string, }'')"
  by (simp add: format_def formatSource_def formatExpression_def
      tsUnionType_def tsUnionMembers_def tsType_def example_defs getTypeMapper_def getElementType_def
      isArray_def defaultTypeMap_def map_add_def object_def defaultFormatFunc_def quoted_def dq_def
      trim_def removeTypeT_def isSpace_def unique_def)

lemma person_format:
  "formatStmt (\<lambda>source. Inr source) exampleContext (RawStmt personQuery)
     = Inr (''{ '' @ quoted ''first_name'' @ '': string, }'')"
  by (simp add: formatStmt_def person_eval first_name_format)

text \<open>
  C8. For every source, \<^verbatim>\<open>generate\<close> returns either the list of results or an error, never both:
  the error of the parser, or else the first error met while analyzing and formatting the
  statements in order, or else one result per statement. If the analysis of any statement of the
  source fails, the value is an error, with no list of results. Other calls are unaffected: a
  call of \<^verbatim>\<open>generate\<close> after this one returns what it would have returned without it.
\<close>

theorem generate_results_or_error:
  "fst (generate parse prettierFormat context query) =
     (case parse query of
        Inl e \<Rightarrow> Error e
      | Inr rawStmts \<Rightarrow>
          (case mapE (formatStmt prettierFormat context) rawStmts of
             Inl e \<Rightarrow> Error e
           | Inr results \<Rightarrow> Results results))
   \<and> ((\<exists>results. fst (generate parse prettierFormat context query) = Results results)
        \<noteq> (\<exists>e. fst (generate parse prettierFormat context query) = Error e))
   \<and> (\<forall>rawStmts stmt. parse query = Inr rawStmts \<and> RawStmt stmt \<in> set rawStmts
          \<and> (\<exists>e. fst (parseStmt stmt context) = Inl e)
        \<longrightarrow> (\<exists>e. fst (generate parse prettierFormat context query) = Error e))
   \<and> (\<forall>results. fst (generate parse prettierFormat context query) = Results results
        \<longrightarrow> (\<exists>rawStmts. parse query = Inr rawStmts \<and> length results = length rawStmts
              \<and> (\<forall>i<length rawStmts. formatStmt prettierFormat context (rawStmts ! i) = Inr (results ! i))))
   \<and> generate parse prettierFormat (snd (generate parse prettierFormat context query)) query'
       = generate parse prettierFormat context query'"
proof -
  have p: "fst (generate parse prettierFormat context query) =
     (case parse query of
        Inl e \<Rightarrow> Error e
      | Inr rawStmts \<Rightarrow>
          (case mapE (formatStmt prettierFormat context) rawStmts of
             Inl e \<Rightarrow> Error e
           | Inr results \<Rightarrow> Results results))"
    by (simp add: generate_def parseQuery_pure split: sum.splits)
  have x: "(\<exists>results. fst (generate parse prettierFormat context query) = Results results)
        \<noteq> (\<exists>e. fst (generate parse prettierFormat context query) = Error e)"
    by (cases "fst (generate parse prettierFormat context query)") auto
  have e: "\<forall>rawStmts stmt. parse query = Inr rawStmts \<and> RawStmt stmt \<in> set rawStmts
          \<and> (\<exists>e. fst (parseStmt stmt context) = Inl e)
        \<longrightarrow> (\<exists>e. fst (generate parse prettierFormat context query) = Error e)"
  proof (intro allI impI)
    fix rawStmts stmt
    assume h: "parse query = Inr rawStmts \<and> RawStmt stmt \<in> set rawStmts
          \<and> (\<exists>e. fst (parseStmt stmt context) = Inl e)"
    then have "\<exists>x\<in>set rawStmts. \<exists>e. formatStmt prettierFormat context x = Inl e"
      by (intro bexI[of _ "RawStmt stmt"]) (auto simp: formatStmt_def)
    then obtain err where "mapE (formatStmt prettierFormat context) rawStmts = Inl err"
      using mapE_Inl_iff[of "formatStmt prettierFormat context" rawStmts] by blast
    with h show "\<exists>e. fst (generate parse prettierFormat context query) = Error e"
      by (simp add: p)
  qed
  have r: "\<forall>results. fst (generate parse prettierFormat context query) = Results results
        \<longrightarrow> (\<exists>rawStmts. parse query = Inr rawStmts \<and> length results = length rawStmts
              \<and> (\<forall>i<length rawStmts. formatStmt prettierFormat context (rawStmts ! i) = Inr (results ! i)))"
  proof (intro allI impI)
    fix results
    assume h: "fst (generate parse prettierFormat context query) = Results results"
    then obtain rawStmts where a: "parse query = Inr rawStmts"
      and b: "mapE (formatStmt prettierFormat context) rawStmts = Inr results"
      by (auto simp: p split: sum.splits)
    have "length results = length rawStmts \<and> (\<forall>i<length rawStmts. formatStmt prettierFormat context (rawStmts ! i) = Inr (results ! i))"
      using b
    proof (induction rawStmts arbitrary: results)
      case Nil
      then show ?case by simp
    next
      case (Cons s ss)
      then obtain y ys where "formatStmt prettierFormat context s = Inr y"
        "mapE (formatStmt prettierFormat context) ss = Inr ys" "results = y # ys"
        by (auto split: sum.splits)
      with Cons.IH[of ys] show ?case
        by (auto simp: nth_Cons split: nat.splits)
    qed
    with a show "\<exists>rawStmts. parse query = Inr rawStmts \<and> length results = length rawStmts
              \<and> (\<forall>i<length rawStmts. formatStmt prettierFormat context (rawStmts ! i) = Inr (results ! i))"
      by blast
  qed
  have s: "generate parse prettierFormat (snd (generate parse prettierFormat context query)) query'
       = generate parse prettierFormat context query'"
    by (simp add: generate_def parseQuery_pure split: sum.splits)
  show ?thesis
    using p x e r s by blast
qed

text \<open>
  A source of two statements, the second of which has a column without a name, gives an error;
  the next source, given to the same generator, gives its result.
\<close>

theorem generate_results_or_error_witness:
  "exampleParse ''first'' = Inr [RawStmt personQuery, RawStmt unnamedQuery]
   \<and> RawStmt unnamedQuery \<in> set [RawStmt personQuery, RawStmt unnamedQuery]
   \<and> (\<exists>e. fst (parseStmt unnamedQuery exampleContext) = Inl e)
   \<and> (\<exists>e. fst (generate exampleParse (\<lambda>source. Inr source) exampleContext ''first'') = Error e)
   \<and> fst (generate exampleParse (\<lambda>source. Inr source)
             (snd (generate exampleParse (\<lambda>source. Inr source) exampleContext ''first'')) ''second'')
       = Results [''{ '' @ quoted ''first_name'' @ '': string, }'']"
proof -
  let ?pp = "\<lambda>source::string. (Inr source :: error + string)"
  have a: "exampleParse ''first'' = Inr [RawStmt personQuery, RawStmt unnamedQuery]"
    by (simp add: exampleParse_def)
  have b: "RawStmt unnamedQuery \<in> set [RawStmt personQuery, RawStmt unnamedQuery]"
    by simp
  have c: "\<exists>e. fst (parseStmt unnamedQuery exampleContext) = Inl e"
    by (simp add: unnamed_eval)
  note t = generate_results_or_error[of exampleParse ?pp exampleContext "''first''" "''second''"]
  from t a b c have d: "\<exists>e. fst (generate exampleParse ?pp exampleContext ''first'') = Error e"
    by blast
  from t have e: "generate exampleParse ?pp (snd (generate exampleParse ?pp exampleContext ''first'')) ''second''
      = generate exampleParse ?pp exampleContext ''second''"
    by blast
  from generate_results_or_error[of exampleParse ?pp exampleContext "''second''" "''first''"]
  have "fst (generate exampleParse ?pp exampleContext ''second'') =
     (case exampleParse ''second'' of
        Inl e \<Rightarrow> Error e
      | Inr rawStmts \<Rightarrow>
          (case mapE (formatStmt ?pp exampleContext) rawStmts of
             Inl e \<Rightarrow> Error e
           | Inr results \<Rightarrow> Results results))"
    by blast
  then have f: "fst (generate exampleParse ?pp exampleContext ''second'')
      = Results [''{ '' @ quoted ''first_name'' @ '': string, }'']"
    by (simp add: exampleParse_def person_format)
  show ?thesis
    using a b c d e f by simp
qed

section \<open>Outer joins\<close>

























lemma left_join_eval:
  "parseFromClause [JoinExpr JOIN_LEFT customerC addressA, filmItem] exampleContext
     = (Inr ((clone exampleContext) \<lparr> tables :=
          [(''c'', Some customerTable), (''a'', Some nullableAddress), (''film'', Some filmTable)] \<rparr>),
        exampleContext)"
  by (simp add: customerC_def addressA_def filmItem_def nullableCustomer_def nullableAddress_def eval_defs)





text \<open>
  The flag of a LEFT or FULL join is handed to a right operand that is a table. A right operand
  that is itself a join is analyzed by \<^verbatim>\<open>parseJoinExpr\<close>, which does not take the flag: in
  \<^verbatim>\<open>FROM customer c LEFT JOIN (address a JOIN film)\<close> no table is marked.
\<close>

lemma nested_join_right_operand:
  "parseFromClause [JoinExpr JOIN_LEFT customerC (JoinExpr JOIN_INNER addressA filmItem)] exampleContext
     = (Inr ((clone exampleContext) \<lparr> tables :=
          [(''c'', Some customerTable), (''a'', Some addressTable), (''film'', Some filmTable)] \<rparr>),
        exampleContext)"
  by (simp add: customerC_def addressA_def filmItem_def eval_defs)

section \<open>Set operations\<close>

lemma mapE_nth:
  "mapE f xs = Inr ys \<Longrightarrow> length ys = length xs \<and> (\<forall>i<length xs. f (xs ! i) = Inr (ys ! i))"
proof (induction xs arbitrary: ys)
  case Nil
  then show ?case by simp
next
  case (Cons x xs)
  then obtain z zs where "f x = Inr z" "mapE f xs = Inr zs" "ys = z # zs"
    by (auto split: sum.splits)
  with Cons.IH[of zs] show ?case
    by (auto simp: nth_Cons split: nat.splits)
qed

lemma setVariants_variantsOf: "setVariants lResult rResult = variantsOf lResult @ variantsOf rResult"
  by (simp add: setVariants_def variantsOf_def split: option.splits)

lemma setOperation_result:
  assumes "setOperation l r = Inr cols"
  shows "length cols = length l \<and> length l \<le> length r
       \<and> (\<forall>i<length l. name (cols ! i) = name (l ! i) \<and> type (cols ! i) = type (l ! i)
             \<and> nullable (cols ! i) = (nullable (l ! i) \<or> nullable (r ! i))
             \<and> set' (cols ! i) = Some (variantsOf (l ! i) @ variantsOf (r ! i)))"
proof -
  note m = mapE_nth[OF assms[unfolded setOperation_def]]
  have len: "length cols = length l" using m by simp
  have each: "i < length r \<and> cols ! i = ParsedExpression None (name (l ! i)) (nullable (l ! i) \<or> nullable (r ! i))
                      (Some (setVariants (l ! i) (r ! i))) (type (l ! i)) None" if "i < length l" for i
  proof -
    have "[0..<length l] ! i = i" using that by simp
    with m[THEN conjunct2, rule_format, of i] that
    have "(case at r i of None \<Rightarrow> Inl TypeError
            | Some rResult \<Rightarrow> Inr (ParsedExpression None (name (l ! i)) (nullable (l ! i) \<or> nullable rResult)
                      (Some (setVariants (l ! i) rResult)) (type (l ! i)) None)) = Inr (cols ! i)"
      by (simp add: Let_def split: option.splits)
    then show ?thesis
      by (auto simp: at_def split: option.splits if_splits)
  qed
  have le: "length l \<le> length r"
  proof (rule ccontr)
    assume "\<not> length l \<le> length r"
    then have "length r < length l" by simp
    from each[OF this] show False by simp
  qed
  show ?thesis
    using len le each by (simp add: setVariants_variantsOf)
qed

lemma operandResults_SetOperation:
  "operandResults (SetOperation larg rarg) c = operandResults larg c @ operandResults rarg c"
  by (simp add: operandResults_def)

text \<open>
  What the set-operation branch computes: the variants of a result column are the variants of
  the corresponding columns of the operand queries, concatenated in source order; its name and
  type are those of the leftmost operand's column, and it is nullable when the column of some
  operand is. When no operand's column has set variants of its own, there is one variant per
  operand query.
\<close>

lemma set_operation_columns:
  "parseSelectStmt stmt c = (Inr cols, c') \<Longrightarrow>
     operandResults stmt c \<noteq> []
   \<and> length (operandResults stmt c) = length (operands stmt)
   \<and> length cols = length (hd (operandResults stmt c))
   \<and> (\<forall>rs\<in>set (operandResults stmt c). length cols \<le> length rs)
   \<and> (\<forall>i<length cols.
         variantsOf (cols ! i) = concat (map (\<lambda>rs. variantsOf (rs ! i)) (operandResults stmt c))
       \<and> name (cols ! i) = name (hd (operandResults stmt c) ! i)
       \<and> type (cols ! i) = type (hd (operandResults stmt c) ! i)
       \<and> nullable (cols ! i) = (\<exists>rs\<in>set (operandResults stmt c). nullable (rs ! i)))"
proof (induction stmt arbitrary: cols c' rule: operands.induct)
  case (1 larg rarg)
  have frl: "snd (parseSelectStmt larg c) = c" and frr: "snd (parseSelectStmt rarg c) = c"
    by (rule analyzer_frame(9))+
  from "1.prems" obtain l r where
    l: "parseSelectStmt larg c = (Inr l, c)" and r: "parseSelectStmt rarg c = (Inr r, c)"
    and s: "setOperation l r = Inr cols"
    using frl frr
    by (cases "parseSelectStmt larg c"; cases "parseSelectStmt rarg c")
       (auto simp: bindA_def liftA_def split: sum.splits)
  note il = "1.IH"(1)[OF l]
  note ir = "1.IH"(2)[OF r]
  note so = setOperation_result[OF s]
  let ?L = "operandResults larg c" and ?R = "operandResults rarg c"
  have hdL: "hd (?L @ ?R) = hd ?L" using il by simp
  have each: "variantsOf (cols ! i) = concat (map (\<lambda>rs. variantsOf (rs ! i)) (?L @ ?R))
       \<and> name (cols ! i) = name (hd ?L ! i)
       \<and> type (cols ! i) = type (hd ?L ! i)
       \<and> nullable (cols ! i) = (\<exists>rs\<in>set (?L @ ?R). nullable (rs ! i))" if "i < length cols" for i
  proof -
    have i: "i < length l" "i < length r" using that so by auto
    have "variantsOf (cols ! i) = variantsOf (l ! i) @ variantsOf (r ! i)"
      using so i by (simp add: variantsOf_def)
    then show ?thesis
      using so il ir i by auto
  qed
  have bound: "\<forall>rs\<in>set (?L @ ?R). length cols \<le> length rs"
    using so il ir by fastforce
  have ne: "?L @ ?R \<noteq> []" using il by simp
  have cnt: "length (?L @ ?R) = length (operands (SetOperation larg rarg))"
    using il ir by simp
  have len: "length cols = length (hd ?L)"
    using so il by simp
  show ?case
    unfolding operandResults_SetOperation hdL
    using ne cnt len bound each by blast
next
  case (2 targetList fromClause withClause)
  have "fst (parseSelectStmt (Select targetList fromClause withClause) c) = Inr cols"
    using "2.prems" by simp
  then show ?case
    by (simp add: operandResults_def del: parseSelectStmt.simps)
next
  case (3 valuesLists)
  have "fst (parseSelectStmt (Values valuesLists) c) = Inr cols"
    using "3.prems" by simp
  then show ?case
    by (simp add: operandResults_def del: parseSelectStmt.simps)
qed

lemma concat_single_variants:
  "\<forall>rs\<in>set rss. set' (rs ! i) = None \<Longrightarrow>
     concat (map (\<lambda>rs. variantsOf (rs ! i)) rss) = map (\<lambda>rs. rs ! i) rss"
  by (induction rss) (auto simp: variantsOf_def)

lemma set_operation_variants:
  assumes "parseSelectStmt (SetOperation larg rarg) c = (Inr cols, c')"
    and "i < length cols"
    and "\<forall>rs\<in>set (operandResults (SetOperation larg rarg) c). set' (rs ! i) = None"
  shows "set' (cols ! i) = Some (map (\<lambda>rs. rs ! i) (operandResults (SetOperation larg rarg) c))
       \<and> length (operandResults (SetOperation larg rarg) c) = length (operands (SetOperation larg rarg))
       \<and> name (cols ! i) = name (hd (operandResults (SetOperation larg rarg) c) ! i)
       \<and> type (cols ! i) = type (hd (operandResults (SetOperation larg rarg) c) ! i)
       \<and> nullable (cols ! i) = (\<exists>rs\<in>set (operandResults (SetOperation larg rarg) c). nullable (rs ! i))"
proof -
  let ?stmt = "SetOperation larg rarg"
  note g = set_operation_columns[OF assms(1)]
  have frl: "snd (parseSelectStmt larg c) = c" and frr: "snd (parseSelectStmt rarg c) = c"
    by (rule analyzer_frame(9))+
  from assms(1) obtain l r where s: "setOperation l r = Inr cols"
    using frl frr
    by (cases "parseSelectStmt larg c"; cases "parseSelectStmt rarg c")
       (auto simp: bindA_def liftA_def split: sum.splits)
  from setOperation_result[OF s] assms(2) obtain vs where vs: "set' (cols ! i) = Some vs"
    by auto
  have "concat (map (\<lambda>rs. variantsOf (rs ! i)) (operandResults ?stmt c))
        = map (\<lambda>rs. rs ! i) (operandResults ?stmt c)"
    using assms(3) by (rule concat_single_variants)
  moreover have "variantsOf (cols ! i) = concat (map (\<lambda>rs. variantsOf (rs ! i)) (operandResults ?stmt c))"
    using g assms(2) by blast
  moreover have "variantsOf (cols ! i) = vs"
    using vs by (simp add: variantsOf_def)
  ultimately have "vs = map (\<lambda>rs. rs ! i) (operandResults ?stmt c)"
    by simp
  with vs g assms(2) show ?thesis by blast
qed

lemma toString10_small: "toString10 1 = ''1''" "toString10 2 = ''2''" "toString10 3 = ''3''"
  by (simp_all add: toString10_def digits.simps digit_def)

lemma scalarOperand_eval:
  "parseSelectStmt scalarOperand exampleContext
     = (Inr [ParsedExpression None (Some ''x'') True
              (Some [constantColumn ''1'' ''a'', constantColumn ''2'' ''a'']) ''int4'' None], exampleContext)"
  by (simp add: scalarOperand_def oneOrTwo_def selectConstant_def constantColumn_def setOperation_def
      setVariants_def toString10_small eval_defs)

text \<open>
  C2, at \<^verbatim>\<open>SELECT (SELECT 1 a UNION SELECT 2 a) x UNION SELECT 3 x\<close>. The query has two operand
  queries, and its one result column has three set variants: the column of the first operand
  is a scalar subquery, to which \<^verbatim>\<open>parseSubLink\<close> copies the set variants of the subquery's
  column, and the set operation takes them for variants of operand queries. The formatter
  then writes three object types, two of them with the column name of the subquery.
\<close>

theorem scalar_subquery_leaks_set_variants:
  "length (operands leakQuery) = 2
   \<and> parseSelectStmt leakQuery exampleContext
     = (Inr [ParsedExpression None (Some ''x'') True
              (Some [constantColumn ''1'' ''a'', constantColumn ''2'' ''a'', constantColumn ''3'' ''x''])
              ''int4'' None], exampleContext)
   \<and> format (\<lambda>source. Inr source)
        [ParsedExpression None (Some ''x'') True
              (Some [constantColumn ''1'' ''a'', constantColumn ''2'' ''a'', constantColumn ''3'' ''x''])
              ''int4'' None] exampleContext
     = Inr (''{ '' @ quoted ''a'' @ '': 1, } | { '' @ quoted ''a'' @ '': 2, } | { '' @ quoted ''x'' @ '': 3, }'')"
proof -
  have n: "length (operands leakQuery) = 2"
    by (simp add: leakQuery_def scalarOperand_def selectConstant_def)
  have three: "parseSelectStmt (selectConstant 3 ''x'') exampleContext = (Inr [constantColumn ''3'' ''x''], exampleContext)"
    by (simp add: selectConstant_def constantColumn_def toString10_small eval_defs)
  have p: "parseSelectStmt leakQuery exampleContext
     = (Inr [ParsedExpression None (Some ''x'') True
              (Some [constantColumn ''1'' ''a'', constantColumn ''2'' ''a'', constantColumn ''3'' ''x''])
              ''int4'' None], exampleContext)"
    unfolding leakQuery_def
    by (subst parseSelectStmt.simps)
       (simp add: scalarOperand_eval three bindA_def liftA_def setOperation_def setVariants_def at_def constantColumn_def)
  have f: "format (\<lambda>source. Inr source)
        [ParsedExpression None (Some ''x'') True
              (Some [constantColumn ''1'' ''a'', constantColumn ''2'' ''a'', constantColumn ''3'' ''x''])
              ''int4'' None] exampleContext
     = Inr (''{ '' @ quoted ''a'' @ '': 1, } | { '' @ quoted ''a'' @ '': 2, } | { '' @ quoted ''x'' @ '': 3, }'')"
    by (simp add: format_def formatSource_def formatExpression_def constantColumn_def
      tsUnionType_def tsUnionMembers_def tsType_def example_defs getTypeMapper_def getElementType_def
      isArray_def defaultTypeMap_def map_add_def object_def defaultFormatFunc_def quoted_def dq_def
      trim_def removeTypeT_def isSpace_def unique_def orEmpty_def at_def)
  show ?thesis using n p f by simp
qed

end
